theory Spec2Isabelle
  imports Complex_Main
begin

section \<open>JavaScript values\<close>

text \<open>
  A string is the UTF-8 encoding of the JavaScript string, byte by byte. A finite
  \<^verbatim>\<open>number\<close> is a rational.
\<close>

datatype number = Num rat | NaN | PosInf | NegInf

datatype json =
    JUndefined
  | JNull
  | JBool bool
  | JNum number
  | JStr string
  | JArr "json list"
  | JObj "(string \<times> json) list"

text \<open>A thrown value: an instance of \<^verbatim>\<open>Error\<close> with its message, or any other value,
  kept as what \<^verbatim>\<open>String(err)\<close> makes of it.\<close>

datatype exn = Error string | NonError string

text \<open>\<^verbatim>\<open>err instanceof Error ? err.message : String(err)\<close>\<close>

fun message :: "exn \<Rightarrow> string" where
  "message (Error m) = m"
| "message (NonError s) = s"

text \<open>
  The characters \<^verbatim>\<open>String.prototype.trim\<close> removes, each in UTF-8: the white space
  TAB, VT, FF, SPACE, U+00A0, U+FEFF and the other space separators (U+1680, U+2000 to
  U+200A, U+202F, U+205F, U+3000), and the line terminators LF, CR, U+2028, U+2029.
\<close>

definition whiteSpace :: "string list" where
  "whiteSpace =
     [[CHR 0x09], [CHR 0x0A], [CHR 0x0B], [CHR 0x0C], [CHR 0x0D], [CHR 0x20],
      [CHR 0xC2, CHR 0xA0],
      [CHR 0xE1, CHR 0x9A, CHR 0x80],
      [CHR 0xE2, CHR 0x80, CHR 0x80], [CHR 0xE2, CHR 0x80, CHR 0x81],
      [CHR 0xE2, CHR 0x80, CHR 0x82], [CHR 0xE2, CHR 0x80, CHR 0x83],
      [CHR 0xE2, CHR 0x80, CHR 0x84], [CHR 0xE2, CHR 0x80, CHR 0x85],
      [CHR 0xE2, CHR 0x80, CHR 0x86], [CHR 0xE2, CHR 0x80, CHR 0x87],
      [CHR 0xE2, CHR 0x80, CHR 0x88], [CHR 0xE2, CHR 0x80, CHR 0x89],
      [CHR 0xE2, CHR 0x80, CHR 0x8A],
      [CHR 0xE2, CHR 0x80, CHR 0xA8], [CHR 0xE2, CHR 0x80, CHR 0xA9],
      [CHR 0xE2, CHR 0x80, CHR 0xAF],
      [CHR 0xE2, CHR 0x81, CHR 0x9F],
      [CHR 0xE3, CHR 0x80, CHR 0x80],
      [CHR 0xEF, CHR 0xBB, CHR 0xBF]]"

text \<open>
  \<open>strip ws s\<close> removes from the front of \<open>s\<close> every character whose encoding is in
  \<open>ws\<close>. An encoding is one to three bytes long and no encoding begins another, so a
  character is recognised by its first bytes; read backwards, by its last.
\<close>

fun strip :: "string list \<Rightarrow> string \<Rightarrow> string" where
  "strip ws (a # b # c # s) =
     (if [a] \<in> set ws then strip ws (b # c # s)
      else if [a, b] \<in> set ws then strip ws (c # s)
      else if [a, b, c] \<in> set ws then strip ws s
      else a # b # c # s)"
| "strip ws [a, b] =
     (if [a] \<in> set ws then strip ws [b]
      else if [a, b] \<in> set ws then []
      else [a, b])"
| "strip ws [a] = (if [a] \<in> set ws then [] else [a])"
| "strip ws [] = []"

definition trimStart :: "string \<Rightarrow> string" where
  "trimStart s = strip whiteSpace s"

definition trimEnd :: "string \<Rightarrow> string" where
  "trimEnd s = rev (strip (map rev whiteSpace) (rev s))"

definition trim :: "string \<Rightarrow> string" where
  "trim s = trimEnd (trimStart s)"

text \<open>
  \<^verbatim>\<open>String.prototype.toLowerCase\<close>: \<open>A\<close> to \<open>Z\<close> become \<open>a\<close> to \<open>z\<close>, and the
  Kelvin sign U+212A becomes \<open>k\<close>. The lower case of every other character outside ASCII
  is again outside ASCII; such a character is left as it is, so a string has an ASCII
  lower case in the model exactly when it has one in the code, and then the same one.
\<close>

definition lowerChar :: "char \<Rightarrow> char" where
  "lowerChar c =
     (let n = (of_char c :: nat)
      in if 65 \<le> n \<and> n \<le> 90 then char_of (n + 32) else c)"

fun toLowerCase :: "string \<Rightarrow> string" where
  "toLowerCase (a # b # c # s) =
     (if [a, b, c] = [CHR 0xE2, CHR 0x84, CHR 0xAA] then CHR ''k'' # toLowerCase s
      else lowerChar a # toLowerCase (b # c # s))"
| "toLowerCase (a # s) = lowerChar a # toLowerCase s"
| "toLowerCase [] = []"

text \<open>The built-in functions the code calls; they are parameters of the model.\<close>

record builtins =
  parseInt :: "string \<Rightarrow> number"
  parseFloat :: "string \<Rightarrow> number"
  JSON_stringify :: "json \<Rightarrow> string"

definition isFinite :: "number \<Rightarrow> bool" where
  "isFinite n = (case n of Num _ \<Rightarrow> True | _ \<Rightarrow> False)"

text \<open>\<^verbatim>\<open>a || b\<close> on optional strings: \<^verbatim>\<open>undefined\<close> and \<^verbatim>\<open>""\<close> are falsy.\<close>

definition truthyStr :: "string option \<Rightarrow> bool" where
  "truthyStr x = (case x of None \<Rightarrow> False | Some v \<Rightarrow> v \<noteq> [])"

definition orStr :: "string option \<Rightarrow> string option \<Rightarrow> string option" where
  "orStr a b = (if truthyStr a then a else b)"

definition orDefault :: "string option \<Rightarrow> string \<Rightarrow> string" where
  "orDefault a d = (case a of None \<Rightarrow> d | Some v \<Rightarrow> if v \<noteq> [] then v else d)"

text \<open>\<^verbatim>\<open>a || b\<close> on an optional number: \<^verbatim>\<open>undefined\<close>, \<open>0\<close> and \<open>NaN\<close> are falsy.\<close>

definition orNum :: "number option \<Rightarrow> number \<Rightarrow> number" where
  "orNum a d =
     (case a of
        None \<Rightarrow> d
      | Some (Num r) \<Rightarrow> if r = 0 then d else Num r
      | Some NaN \<Rightarrow> d
      | Some n \<Rightarrow> n)"

section \<open>Tool parameters (tools.ts)\<close>

type_synonym params = "string \<rightharpoonup> json"

record content_item =
  item_type :: string
  item_text :: string

record AgentToolResult =
  content :: "content_item list"
  details :: json

definition jsonResult :: "builtins \<Rightarrow> json \<Rightarrow> AgentToolResult" where
  "jsonResult bi payload =
     \<lparr>content = [\<lparr>item_type = ''text'', item_text = JSON_stringify bi payload\<rparr>], details = payload\<rparr>"

text \<open>\<open>readStringParam params key required trim\<close>; the options default to
  \<open>required = False\<close> and \<open>trim = True\<close>.\<close>

definition readStringParam ::
  "params \<Rightarrow> string \<Rightarrow> bool \<Rightarrow> bool \<Rightarrow> exn + string option" where
  "readStringParam ps key required trm =
     (case ps key of
        Some (JStr raw) \<Rightarrow>
          (let v = (if trm then trim raw else raw)
           in if v = [] then (if required then Inl (Error (key @ '' required'')) else Inr None)
              else Inr (Some v))
      | _ \<Rightarrow> if required then Inl (Error (key @ '' required'')) else Inr None)"

definition readNumberParam ::
  "builtins \<Rightarrow> params \<Rightarrow> string \<Rightarrow> bool \<Rightarrow> exn + number option" where
  "readNumberParam bi ps key required =
     (let v = (case ps key of
                 Some (JNum n) \<Rightarrow> if isFinite n then Some n else None
               | Some (JStr raw) \<Rightarrow>
                   (let parsed = parseFloat bi (trim raw)
                    in if isFinite parsed then Some parsed else None)
               | _ \<Rightarrow> None)
      in if v = None \<and> required then Inl (Error (key @ '' required'')) else Inr v)"

fun stringEntries :: "json list \<Rightarrow> string list" where
  "stringEntries [] = []"
| "stringEntries (JStr s # xs) = s # stringEntries xs"
| "stringEntries (_ # xs) = stringEntries xs"

definition readStringArrayParam :: "params \<Rightarrow> string \<Rightarrow> string list option" where
  "readStringArrayParam ps key =
     (case ps key of
        Some (JArr raw) \<Rightarrow>
          Some (filter (\<lambda>e. e \<noteq> []) (map trim (stringEntries raw)))
      | Some (JStr raw) \<Rightarrow> (let v = trim raw in if v \<noteq> [] then Some [v] else None)
      | _ \<Rightarrow> None)"

section \<open>The backend handle and the module state (service.ts)\<close>

record SearchResult =
  sr_key :: string
  sr_content :: string
  sr_score :: number
  sr_namespace :: "string option"
  sr_metadata :: "json option"

record MemoryStats =
  totalEntries :: number
  byNamespace :: "(string \<times> number) list"
  oldestEntry :: "string option"
  newestEntry :: "string option"

record SearchOptions =
  so_limit :: "number option"
  so_namespace :: "string option"
  so_threshold :: "number option"
  so_includeMetadata :: "bool option"

record ListOptions =
  lo_namespace :: "string option"
  lo_limit :: "number option"
  lo_offset :: "number option"

record WriteMetadata =
  wm_namespace :: "string option"
  wm_tags :: "string list option"

text \<open>
  \<^verbatim>\<open>interface MemoryPlugin\<close>: every method is asynchronous I/O on the outside world,
  whose state has type \<open>'b\<close>; a call returns a value or throws, and changes the world.
  The key and content arguments are what \<open>readStringParam\<close> returned, so they carry
  its \<^verbatim>\<open>string | undefined\<close> type.
\<close>

record 'b MemoryPlugin =
  connect :: "'b \<Rightarrow> (exn + unit) \<times> 'b"
  disconnect :: "'b \<Rightarrow> (exn + unit) \<times> 'b"
  read :: "string option \<Rightarrow> 'b \<Rightarrow> (exn + string option) \<times> 'b"
  write' :: "string option \<Rightarrow> string option \<Rightarrow> WriteMetadata \<Rightarrow> 'b \<Rightarrow> (exn + unit) \<times> 'b"
  search :: "string option \<Rightarrow> SearchOptions \<Rightarrow> 'b \<Rightarrow> (exn + SearchResult list) \<times> 'b"
  list :: "ListOptions \<Rightarrow> 'b \<Rightarrow> (exn + string list) \<times> 'b"
  delete :: "string option \<Rightarrow> 'b \<Rightarrow> (exn + bool) \<times> 'b"
  stats :: "'b \<Rightarrow> (exn + MemoryStats) \<times> 'b"

record BridgeConfig =
  postgresHost :: string
  postgresPort :: number
  database :: string
  userId :: string

record PoolOptions =
  pool_min :: nat
  pool_max :: nat
  idleTimeout :: nat

record DatabaseOptions =
  db_host :: string
  db_port :: number
  db_database :: string
  db_user :: string
  db_ssl :: bool
  db_pool :: PoolOptions

text \<open>Every call that leaves the plugin is recorded, with the exception it threw, if any.\<close>

datatype call =
    Import string
  | CreateMemoryBridge BridgeConfig
  | NewPostgresMemoryPlugin DatabaseOptions
  | Connect
  | Disconnect
  | Read "string option"
  | Write "string option" "string option" WriteMetadata
  | Search "string option" SearchOptions
  | List ListOptions
  | Delete "string option"
  | Stats

type_synonym event = "call \<times> exn option"

text \<open>
  The module-level variables of service.ts, the \<open>refreshInterval\<close> field of the
  service object (is a timer scheduled), \<^verbatim>\<open>process.env\<close>, the outside world and the
  record of calls.
\<close>

record 'b sys =
  memoryBridge :: "'b MemoryPlugin option"
  isConnected :: bool
  lastError :: "string option"
  cachedStats :: "MemoryStats option"
  refreshInterval :: bool
  env :: "string \<rightharpoonup> string"
  world :: 'b
  calls :: "event list"

definition thrown :: "exn + 'a \<Rightarrow> exn option" where
  "thrown r = (case r of Inl e \<Rightarrow> Some e | Inr _ \<Rightarrow> None)"

text \<open>An awaited call \<open>c\<close> whose effect on the outside world is \<open>f\<close>.\<close>

definition ext_call :: "call \<Rightarrow> ('b \<Rightarrow> (exn + 'a) \<times> 'b) \<Rightarrow> 'b sys \<Rightarrow> (exn + 'a) \<times> 'b sys" where
  "ext_call c f s =
     (case f (world s) of
        (r, w) \<Rightarrow> (r, s\<lparr>world := w, calls := calls s @ [(c, thrown r)]\<rparr>))"

definition getMemoryBridge :: "'b sys \<Rightarrow> 'b MemoryPlugin option" where
  "getMemoryBridge s = memoryBridge s"

record status =
  connected :: bool
  st_stats :: "MemoryStats option"
  st_error :: "string option"

definition getMemoryBridgeStatus :: "'b sys \<Rightarrow> status" where
  "getMemoryBridgeStatus s =
     \<lparr>connected = isConnected s, st_stats = cachedStats s, st_error = lastError s\<rparr>"

section \<open>The tools (tools.ts)\<close>

definition optStr :: "string option \<Rightarrow> json" where
  "optStr x = (case x of None \<Rightarrow> JUndefined | Some v \<Rightarrow> JStr v)"

definition notConnected :: string where
  "notConnected = ''Memory bridge not connected''"

definition memory_store ::
  "builtins \<Rightarrow> params \<Rightarrow> 'b sys \<Rightarrow> (exn + AgentToolResult) \<times> 'b sys" where
  "memory_store bi ps s =
     (case getMemoryBridge s of
        None \<Rightarrow>
          (Inr (jsonResult bi (JObj [(''success'', JBool False), (''error'', JStr notConnected)])), s)
      | Some bridge \<Rightarrow>
         (case readStringParam ps ''key'' True True of Inl e \<Rightarrow> (Inl e, s) | Inr key \<Rightarrow>
         (case readStringParam ps ''content'' True True of Inl e \<Rightarrow> (Inl e, s) | Inr contentv \<Rightarrow>
         (case readStringParam ps ''namespace'' False True of Inl e \<Rightarrow> (Inl e, s) | Inr namespace \<Rightarrow>
          (let tags = readStringArrayParam ps ''tags'';
               meta = \<lparr>wm_namespace = namespace, wm_tags = tags\<rparr>
           in case ext_call (Write key contentv meta) (write' bridge key contentv meta) s of
                (Inr _, s') \<Rightarrow>
                  (Inr (jsonResult bi (JObj [(''success'', JBool True), (''key'', optStr key),
                     (''namespace'', JStr (case namespace of None \<Rightarrow> ''default'' | Some n \<Rightarrow> n))])), s')
              | (Inl err, s') \<Rightarrow>
                  (Inr (jsonResult bi (JObj [(''success'', JBool False),
                     (''error'', JStr (message err))])), s'))))))"

definition searchResultJson :: "bool \<Rightarrow> SearchResult \<Rightarrow> json" where
  "searchResultJson includeMetadata r =
     JObj ([(''key'', JStr (sr_key r)), (''content'', JStr (sr_content r)),
            (''score'', JNum (sr_score r)), (''namespace'', optStr (sr_namespace r))]
           @ (if includeMetadata
              then (case sr_metadata r of None \<Rightarrow> [] | Some m \<Rightarrow> [(''metadata'', m)])
              else []))"

definition memory_search_enterprise ::
  "builtins \<Rightarrow> params \<Rightarrow> 'b sys \<Rightarrow> (exn + AgentToolResult) \<times> 'b sys" where
  "memory_search_enterprise bi ps s =
     (case getMemoryBridge s of
        None \<Rightarrow>
          (Inr (jsonResult bi (JObj [(''results'', JArr []), (''error'', JStr notConnected)])), s)
      | Some bridge \<Rightarrow>
         (case readStringParam ps ''query'' True True of Inl e \<Rightarrow> (Inl e, s) | Inr query \<Rightarrow>
         (case readNumberParam bi ps ''limit'' False of Inl e \<Rightarrow> (Inl e, s) | Inr limit \<Rightarrow>
         (case readStringParam ps ''namespace'' False True of Inl e \<Rightarrow> (Inl e, s) | Inr namespace \<Rightarrow>
         (case readNumberParam bi ps ''threshold'' False of Inl e \<Rightarrow> (Inl e, s) | Inr threshold \<Rightarrow>
          (let includeMetadata = (ps ''includeMetadata'' = Some (JBool True));
               opts = \<lparr>so_limit = Some (case limit of None \<Rightarrow> Num 5 | Some l \<Rightarrow> l),
                       so_namespace = namespace, so_threshold = threshold,
                       so_includeMetadata = Some includeMetadata\<rparr>
           in case ext_call (Search query opts) (search bridge query opts) s of
                (Inr results, s') \<Rightarrow>
                  (Inr (jsonResult bi (JObj [
                     (''results'', JArr (map (searchResultJson includeMetadata) results)),
                     (''count'', JNum (Num (of_nat (length results))))])), s')
              | (Inl err, s') \<Rightarrow>
                  (Inr (jsonResult bi (JObj [(''results'', JArr []),
                     (''error'', JStr (message err))])), s')))))))"

definition memory_read ::
  "builtins \<Rightarrow> params \<Rightarrow> 'b sys \<Rightarrow> (exn + AgentToolResult) \<times> 'b sys" where
  "memory_read bi ps s =
     (case getMemoryBridge s of
        None \<Rightarrow> (Inr (jsonResult bi (JObj [(''error'', JStr notConnected)])), s)
      | Some bridge \<Rightarrow>
         (case readStringParam ps ''key'' True True of Inl e \<Rightarrow> (Inl e, s) | Inr key \<Rightarrow>
          (case ext_call (Read key) (read bridge key) s of
             (Inr None, s') \<Rightarrow>
               (Inr (jsonResult bi (JObj [(''key'', optStr key), (''found'', JBool False),
                  (''error'', JStr ''Memory not found'')])), s')
           | (Inr (Some c), s') \<Rightarrow>
               (Inr (jsonResult bi (JObj [(''key'', optStr key), (''found'', JBool True),
                  (''content'', JStr c)])), s')
           | (Inl err, s') \<Rightarrow>
               (Inr (jsonResult bi (JObj [(''key'', optStr key), (''found'', JBool False),
                  (''error'', JStr (message err))])), s'))))"

definition memory_delete ::
  "builtins \<Rightarrow> params \<Rightarrow> 'b sys \<Rightarrow> (exn + AgentToolResult) \<times> 'b sys" where
  "memory_delete bi ps s =
     (case getMemoryBridge s of
        None \<Rightarrow>
          (Inr (jsonResult bi (JObj [(''success'', JBool False), (''error'', JStr notConnected)])), s)
      | Some bridge \<Rightarrow>
         (case readStringParam ps ''key'' True True of Inl e \<Rightarrow> (Inl e, s) | Inr key \<Rightarrow>
          (case ext_call (Delete key) (delete bridge key) s of
             (Inr deleted, s') \<Rightarrow>
               (Inr (jsonResult bi (JObj [(''success'', JBool deleted), (''key'', optStr key)])), s')
           | (Inl err, s') \<Rightarrow>
               (Inr (jsonResult bi (JObj [(''success'', JBool False), (''key'', optStr key),
                  (''error'', JStr (message err))])), s'))))"

definition memory_list ::
  "builtins \<Rightarrow> params \<Rightarrow> 'b sys \<Rightarrow> (exn + AgentToolResult) \<times> 'b sys" where
  "memory_list bi ps s =
     (case getMemoryBridge s of
        None \<Rightarrow>
          (Inr (jsonResult bi (JObj [(''keys'', JArr []), (''error'', JStr notConnected)])), s)
      | Some bridge \<Rightarrow>
         (case readStringParam ps ''namespace'' False True of Inl e \<Rightarrow> (Inl e, s) | Inr namespace \<Rightarrow>
         (case readNumberParam bi ps ''limit'' False of Inl e \<Rightarrow> (Inl e, s) | Inr limit \<Rightarrow>
         (case readNumberParam bi ps ''offset'' False of Inl e \<Rightarrow> (Inl e, s) | Inr offset \<Rightarrow>
          (let opts = \<lparr>lo_namespace = namespace,
                       lo_limit = Some (case limit of None \<Rightarrow> Num 100 | Some l \<Rightarrow> l),
                       lo_offset = Some (case offset of None \<Rightarrow> Num 0 | Some l \<Rightarrow> l)\<rparr>
           in case ext_call (List opts) (list bridge opts) s of
                (Inr keys, s') \<Rightarrow>
                  (Inr (jsonResult bi (JObj [(''keys'', JArr (map JStr keys)),
                     (''count'', JNum (Num (of_nat (length keys))))])), s')
              | (Inl err, s') \<Rightarrow>
                  (Inr (jsonResult bi (JObj [(''keys'', JArr []),
                     (''error'', JStr (message err))])), s'))))))"

definition statsJson :: "MemoryStats \<Rightarrow> json" where
  "statsJson st =
     JObj ([(''totalEntries'', JNum (totalEntries st)),
            (''byNamespace'', JObj (map (\<lambda>(k, n). (k, JNum n)) (byNamespace st)))]
           @ (case oldestEntry st of None \<Rightarrow> [] | Some d \<Rightarrow> [(''oldestEntry'', JStr d)])
           @ (case newestEntry st of None \<Rightarrow> [] | Some d \<Rightarrow> [(''newestEntry'', JStr d)]))"

definition memory_stats ::
  "builtins \<Rightarrow> params \<Rightarrow> 'b sys \<Rightarrow> (exn + AgentToolResult) \<times> 'b sys" where
  "memory_stats bi ps s =
     (case getMemoryBridge s of
        None \<Rightarrow> (Inr (jsonResult bi (JObj [(''error'', JStr notConnected)])), s)
      | Some bridge \<Rightarrow>
          (case ext_call Stats (stats bridge) s of
             (Inr st, s') \<Rightarrow> (Inr (jsonResult bi (statsJson st)), s')
           | (Inl err, s') \<Rightarrow>
               (Inr (jsonResult bi (JObj [(''error'', JStr (message err))])), s')))"

record 'b AgentTool =
  name :: string
  execute :: "builtins \<Rightarrow> params \<Rightarrow> 'b sys \<Rightarrow> (exn + AgentToolResult) \<times> 'b sys"

definition createMemoryBridgeTools :: "'b AgentTool list" where
  "createMemoryBridgeTools =
     [\<lparr>name = ''memory_store'', execute = memory_store\<rparr>,
      \<lparr>name = ''memory_search_enterprise'', execute = memory_search_enterprise\<rparr>,
      \<lparr>name = ''memory_read'', execute = memory_read\<rparr>,
      \<lparr>name = ''memory_delete'', execute = memory_delete\<rparr>,
      \<lparr>name = ''memory_list'', execute = memory_list\<rparr>,
      \<lparr>name = ''memory_stats'', execute = memory_stats\<rparr>]"

text \<open>The value of a property of a result payload.\<close>

definition field :: "json \<Rightarrow> string \<Rightarrow> json option" where
  "field j k = (case j of JObj kvs \<Rightarrow> map_of kvs k | _ \<Rightarrow> None)"

section \<open>The connection service (service.ts)\<close>

text \<open>
  One call runs at a time: an \<^verbatim>\<open>await\<close> is the call it waits for. The logger only
  writes messages, so its calls are left out, and it is taken not to throw. What an import
  yields depends on its path alone. A timer tick is the callback's body; the states
  reachable below allow a tick at any moment, which covers every timer that is scheduled.
\<close>

record MemoryBridgePluginConfig =
  cfg_host :: "string option"
  cfg_port :: "number option"
  cfg_database :: "string option"
  cfg_user :: "string option"
  cfg_password :: "string option"
  cfg_ssl :: "bool option"
  cfg_autoContextInjection :: "bool option"
  cfg_defaultNamespace :: "string option"

text \<open>
  What a dynamic \<^verbatim>\<open>import(path)\<close> yields: it throws, or gives a module whose exports
  \<open>createMemoryBridge\<close> and \<open>PostgresMemoryPlugin\<close> are present (truthy) or not. An
  export that is present but cannot be called is a function that throws at once.
\<close>

record 'b module_exports =
  createMemoryBridge :: "(BridgeConfig \<Rightarrow> 'b \<Rightarrow> (exn + 'b MemoryPlugin) \<times> 'b) option"
  PostgresMemoryPlugin :: "(DatabaseOptions \<Rightarrow> 'b \<Rightarrow> (exn + 'b MemoryPlugin) \<times> 'b) option"

type_synonym 'b loader = "string \<Rightarrow> exn + 'b module_exports"

type_synonym 'b factory = "BridgeConfig \<Rightarrow> 'b sys \<Rightarrow> (exn + 'b MemoryPlugin) \<times> 'b sys"

definition importPaths :: "string list" where
  "importPaths =
     [''@novusflow/memory-bridge'',
      ''../../../plugins/memory-bridge/dist/index.js'',
      ''../../../../plugins/memory-bridge/dist/index.js'']"

definition directPath :: string where
  "directPath = ''../../../plugins/memory-bridge/dist/index.js''"

definition import_from :: "'b loader \<Rightarrow> string \<Rightarrow> 'b sys \<Rightarrow> (exn + 'b module_exports) \<times> 'b sys" where
  "import_from ld path s = ext_call (Import path) (\<lambda>w. (ld path, w)) s"

text \<open>The factory of a module that exports \<open>createMemoryBridge\<close>.\<close>

definition moduleFactory ::
  "(BridgeConfig \<Rightarrow> 'b \<Rightarrow> (exn + 'b MemoryPlugin) \<times> 'b) \<Rightarrow> 'b factory" where
  "moduleFactory f config s = ext_call (CreateMemoryBridge config) (f config) s"

text \<open>The \<^verbatim>\<open>for\<close> loop over the import paths; \<open>None\<close> when it falls through.\<close>

fun importLoop :: "'b loader \<Rightarrow> string list \<Rightarrow> 'b sys \<Rightarrow> 'b factory option \<times> 'b sys" where
  "importLoop ld [] s = (None, s)"
| "importLoop ld (importPath # rest) s =
     (case import_from ld importPath s of
        (Inr m, s') \<Rightarrow>
          (case createMemoryBridge m of
             Some f \<Rightarrow> (Some (moduleFactory f), s')
           | None \<Rightarrow> importLoop ld rest s')
      | (Inl _, s') \<Rightarrow> importLoop ld rest s')"

text \<open>The factory built around \<open>PostgresMemoryPlugin\<close> when no import path worked.\<close>

definition directFactory ::
  "(DatabaseOptions \<Rightarrow> 'b \<Rightarrow> (exn + 'b MemoryPlugin) \<times> 'b) option \<Rightarrow> 'b factory" where
  "directFactory ctor config s =
     (let opts = \<lparr>db_host = postgresHost config, db_port = postgresPort config,
                  db_database = database config,
                  db_user = orDefault (env s ''CLAUDE_FLOW_PG_USER'') ''ruvector_admin'',
                  db_ssl = False,
                  db_pool = \<lparr>pool_min = 2, pool_max = 10, idleTimeout = 30000\<rparr>\<rparr>
      in case (case ctor of
                 None \<Rightarrow> (Inl (Error ''PostgresMemoryPlugin is not a constructor''), s)
               | Some new \<Rightarrow> ext_call (NewPostgresMemoryPlugin opts) (new opts) s) of
           (Inl e, s1) \<Rightarrow> (Inl e, s1)
         | (Inr plugin, s1) \<Rightarrow>
             (let s2 = (if userId config \<noteq> []
                        then s1\<lparr>env := (env s1)(''CLAUDE_FLOW_USER'' \<mapsto> userId config)\<rparr>
                        else s1)
              in case ext_call Connect (connect plugin) s2 of
                   (Inl e, s3) \<Rightarrow> (Inl e, s3)
                 | (Inr _, s3) \<Rightarrow> (Inr plugin, s3)))"

text \<open>\<open>Inr None\<close> is the \<^verbatim>\<open>null\<close> the method returns; \<open>Inl\<close> would be an exception
  leaving it.\<close>

definition importMemoryBridge :: "'b loader \<Rightarrow> 'b sys \<Rightarrow> (exn + 'b factory option) \<times> 'b sys" where
  "importMemoryBridge ld s =
     (case importLoop ld importPaths s of
        (Some f, s') \<Rightarrow> (Inr (Some f), s')
      | (None, s') \<Rightarrow>
          (case import_from ld directPath s' of
             (Inr m, s'') \<Rightarrow> (Inr (Some (directFactory (PostgresMemoryPlugin m))), s'')
           | (Inl _, s'') \<Rightarrow> (Inr None, s'')))"

definition bridgeConfig :: "builtins \<Rightarrow> MemoryBridgePluginConfig \<Rightarrow> (string \<rightharpoonup> string) \<Rightarrow> BridgeConfig" where
  "bridgeConfig bi config e =
     \<lparr>postgresHost =
        orDefault (orStr (cfg_host config) (e ''CLAUDE_FLOW_PG_HOST'')) ''vm-claude-flow-prod'',
      postgresPort =
        orNum (cfg_port config) (parseInt bi (orDefault (e ''CLAUDE_FLOW_PG_PORT'') ''5432'')),
      database =
        orDefault (orStr (cfg_database config) (e ''CLAUDE_FLOW_DATABASE'')) ''claude_flow_msp'',
      userId = orDefault (orStr (e ''CLAUDE_FLOW_USER'') (e ''USER'')) ''unknown''\<rparr>"

text \<open>The first stats fetch and the timer callback share their body.\<close>

definition fetchStats :: "'b MemoryPlugin \<Rightarrow> 'b sys \<Rightarrow> 'b sys" where
  "fetchStats h s =
     (case ext_call Stats (stats h) s of
        (Inr st, s') \<Rightarrow> s'\<lparr>cachedStats := Some st\<rparr>
      | (Inl _, s') \<Rightarrow> s')"

text \<open>The \<^verbatim>\<open>try\<close> block of \<open>start\<close>.\<close>

definition start_try ::
  "builtins \<Rightarrow> 'b loader \<Rightarrow> MemoryBridgePluginConfig \<Rightarrow> 'b sys \<Rightarrow> (exn + unit) \<times> 'b sys" where
  "start_try bi ld config s =
     (case importMemoryBridge ld s of
        (Inl e, s1) \<Rightarrow> (Inl e, s1)
      | (Inr None, s1) \<Rightarrow> (Inl (Error ''Failed to load @novusflow/memory-bridge module''), s1)
      | (Inr (Some factory), s1) \<Rightarrow>
          (case factory (bridgeConfig bi config (env s1)) s1 of
             (Inl e, s2) \<Rightarrow> (Inl e, s2)
           | (Inr h, s2) \<Rightarrow>
               (let s3 = s2\<lparr>memoryBridge := Some h, isConnected := True, lastError := None\<rparr>;
                    s4 = fetchStats h s3
                in (Inr (), s4\<lparr>refreshInterval := True\<rparr>))))"

definition start ::
  "builtins \<Rightarrow> 'b loader \<Rightarrow> MemoryBridgePluginConfig \<Rightarrow> 'b sys \<Rightarrow> (exn + unit) \<times> 'b sys" where
  "start bi ld config s =
     (case start_try bi ld config s of
        (Inr u, s') \<Rightarrow> (Inr u, s')
      | (Inl err, s') \<Rightarrow> (Inr (), s'\<lparr>lastError := Some (message err), isConnected := False\<rparr>))"

definition stop :: "'b sys \<Rightarrow> (exn + unit) \<times> 'b sys" where
  "stop s =
     (let s1 = (if refreshInterval s then s\<lparr>refreshInterval := False\<rparr> else s);
          s2 = (case memoryBridge s1 of
                  Some h \<Rightarrow>
                    if isConnected s1
                    then (case ext_call Disconnect (disconnect h) s1 of
                            (Inr _, s') \<Rightarrow> s'
                          | (Inl _, s') \<Rightarrow> s')
                    else s1
                | None \<Rightarrow> s1)
      in (Inr (), s2\<lparr>memoryBridge := None, isConnected := False,
                     cachedStats := None, lastError := None\<rparr>))"

text \<open>The callback given to \<^verbatim>\<open>setInterval\<close>.\<close>

definition refreshTick :: "'b sys \<Rightarrow> 'b sys" where
  "refreshTick s =
     (case memoryBridge s of
        Some h \<Rightarrow> if isConnected s then fetchStats h s else s
      | None \<Rightarrow> s)"

text \<open>The state when the module is loaded.\<close>

definition initial :: "(string \<rightharpoonup> string) \<Rightarrow> 'b \<Rightarrow> 'b sys" where
  "initial e w =
     \<lparr>memoryBridge = None, isConnected = False, lastError = None, cachedStats = None,
      refreshInterval = False, env = e, world = w, calls = []\<rparr>"

text \<open>The states the service can reach by \<open>start\<close>, \<open>stop\<close> and timer ticks.\<close>

inductive reachable :: "builtins \<Rightarrow> 'b sys \<Rightarrow> bool" for bi :: builtins where
  r_initial: "reachable bi (initial e w)"
| r_start: "reachable bi s \<Longrightarrow> reachable bi (snd (start bi ld config s))"
| r_stop: "reachable bi s \<Longrightarrow> reachable bi (snd (stop s))"
| r_tick: "reachable bi s \<Longrightarrow> reachable bi (refreshTick s)"

text \<open>The module-level variables and the timer are the same in both states.\<close>

definition same_module :: "'b sys \<Rightarrow> 'b sys \<Rightarrow> bool" where
  "same_module s s' =
     (memoryBridge s' = memoryBridge s \<and> isConnected s' = isConnected s \<and>
      lastError s' = lastError s \<and> cachedStats s' = cachedStats s \<and>
      refreshInterval s' = refreshInterval s)"

text \<open>A required string parameter is missing, not a string, or empty once trimmed.\<close>

definition missing :: "params \<Rightarrow> string \<Rightarrow> bool" where
  "missing ps key = (case ps key of Some (JStr raw) \<Rightarrow> trim raw = [] | _ \<Rightarrow> True)"

text \<open>An import candidate that fails to load or lacks the factory export.\<close>

definition unusable :: "'b loader \<Rightarrow> string \<Rightarrow> bool" where
  "unusable ld path = (case ld path of Inl _ \<Rightarrow> True | Inr m \<Rightarrow> createMemoryBridge m = None)"

text \<open>The record of one import attempt per path.\<close>

definition import_events :: "'b loader \<Rightarrow> string list \<Rightarrow> event list" where
  "import_events ld paths = map (\<lambda>path. (Import path, thrown (ld path))) paths"

text \<open>The lifecycle of the service: \<open>start\<close> is called only while no handle is held.\<close>

inductive lifecycle :: "builtins \<Rightarrow> 'b sys \<Rightarrow> bool" for bi :: builtins where
  l_initial: "lifecycle bi (initial e w)"
| l_start: "lifecycle bi s \<Longrightarrow> memoryBridge s = None \<Longrightarrow> lifecycle bi (snd (start bi ld config s))"
| l_stop: "lifecycle bi s \<Longrightarrow> lifecycle bi (snd (stop s))"
| l_tick: "lifecycle bi s \<Longrightarrow> lifecycle bi (refreshTick s)"

section \<open>Namespace validation (the plugin definition in config.ts)\<close>

definition ALLOWED_SCHEMAS :: "string list" where
  "ALLOWED_SCHEMAS =
     [''internal'', ''shared_patterns'', ''client_arete_health'', ''client_deccan_intl'',
      ''client_igoe_company'', ''client_cafemoto'', ''client_plenums_plus'']"

definition validateSchema :: "string \<Rightarrow> exn + string" where
  "validateSchema schema =
     (let normalized = trim (toLowerCase schema)
      in if normalized \<notin> set ALLOWED_SCHEMAS
         then Inl (Error (''Invalid schema: '' @ schema))
         else Inr normalized)"

text \<open>The \<open>defaultNamespace\<close> field of \<open>getConfig()\<close>.\<close>

definition defaultNamespace :: "(string \<rightharpoonup> string) \<Rightarrow> string" where
  "defaultNamespace e =
     (case e ''NOVUSFLOW_DEFAULT_NAMESPACE'' of None \<Rightarrow> ''internal'' | Some v \<Rightarrow> v)"

text \<open>
  The \<open>memory_store\<close> and \<open>memory_read\<close> tools that the plugin definition registers
  (the variant with \<open>inputSchema\<close>). Their parameters are typed; \<open>isError\<close> is false
  where the result has no such field. They call no backend.
\<close>

record PluginToolResult =
  pr_content :: "content_item list"
  isError :: bool

record PluginStoreParams =
  ps_key :: string
  ps_value :: string
  ps_namespace :: "string option"
  ps_metadata :: "json option"

record PluginReadParams =
  pr_key :: string
  pr_namespace :: "string option"

definition quote :: "string \<Rightarrow> string" where
  "quote x = [CHR 0x27] @ x @ [CHR 0x27]"

definition plugin_memory_store :: "(string \<rightharpoonup> string) \<Rightarrow> PluginStoreParams \<Rightarrow> PluginToolResult" where
  "plugin_memory_store e ps =
     (case validateSchema (case ps_namespace ps of None \<Rightarrow> defaultNamespace e | Some n \<Rightarrow> n) of
        Inr schema \<Rightarrow>
          \<lparr>pr_content = [\<lparr>item_type = ''text'',
               item_text = ''Stored '' @ quote (ps_key ps) @ '' in '' @ schema\<rparr>],
           isError = False\<rparr>
      | Inl err \<Rightarrow>
          \<lparr>pr_content = [\<lparr>item_type = ''text'', item_text = ''Error: '' @ message err\<rparr>],
           isError = True\<rparr>)"

definition plugin_memory_read :: "(string \<rightharpoonup> string) \<Rightarrow> PluginReadParams \<Rightarrow> PluginToolResult" where
  "plugin_memory_read e ps =
     (case validateSchema (case pr_namespace ps of None \<Rightarrow> defaultNamespace e | Some n \<Rightarrow> n) of
        Inr schema \<Rightarrow>
          \<lparr>pr_content = [\<lparr>item_type = ''text'',
               item_text = ''Read '' @ quote (pr_key ps) @ '' from '' @ schema
                             @ '': (no value found)''\<rparr>],
           isError = False\<rparr>
      | Inl err \<Rightarrow>
          \<lparr>pr_content = [\<lparr>item_type = ''text'', item_text = ''Error: '' @ message err\<rparr>],
           isError = True\<rparr>)"

section \<open>Sample inputs\<close>

definition sample_builtins :: builtins where
  "sample_builtins =
     \<lparr>parseInt = (\<lambda>x. if x = ''5432'' then Num 5432 else NaN),
      parseFloat = (\<lambda>_. NaN),
      JSON_stringify = (\<lambda>_. ''{}'')\<rparr>"

definition sample_stats :: MemoryStats where
  "sample_stats =
     \<lparr>totalEntries = Num 42, byNamespace = [(''internal'', Num 42)],
      oldestEntry = None, newestEntry = None\<rparr>"

text \<open>A backend whose world is a flag: while it is set, every operation times out.\<close>

definition sample_handle :: "bool MemoryPlugin" where
  "sample_handle =
     \<lparr>connect = (\<lambda>w. (Inr (), w)),
      disconnect = (\<lambda>w. (Inr (), w)),
      read = (\<lambda>k w. (if w then Inl (Error ''timeout'') else Inr None, w)),
      write' = (\<lambda>k c m w. (if w then Inl (Error ''timeout'') else Inr (), w)),
      search = (\<lambda>q opts w. (if w then Inl (Error ''timeout'') else Inr [], w)),
      list = (\<lambda>opts w. (if w then Inl (Error ''timeout'') else Inr [], w)),
      delete = (\<lambda>k w. (if w then Inl (Error ''timeout'') else Inr False, w)),
      stats = (\<lambda>w. (if w then Inl (Error ''timeout'') else Inr sample_stats, w))\<rparr>"

definition sample_module :: "bool module_exports" where
  "sample_module =
     \<lparr>createMemoryBridge = Some (\<lambda>config w. (Inr sample_handle, w)),
      PostgresMemoryPlugin = None\<rparr>"

text \<open>Only the second import path resolves.\<close>

definition second_loader :: "bool loader" where
  "second_loader path =
     (if path = ''../../../plugins/memory-bridge/dist/index.js'' then Inr sample_module
      else Inl (Error ''Cannot find module''))"

definition no_loader :: "bool loader" where
  "no_loader path = Inl (Error ''Cannot find module'')"

text \<open>The package resolves, but its factory cannot reach the database.\<close>

definition refusing_loader :: "bool loader" where
  "refusing_loader path =
     (if path = ''@novusflow/memory-bridge''
      then Inr \<lparr>createMemoryBridge = Some (\<lambda>config w. (Inl (Error ''ECONNREFUSED''), w)),
                PostgresMemoryPlugin = None\<rparr>
      else Inl (Error ''Cannot find module''))"

definition sample_config :: MemoryBridgePluginConfig where
  "sample_config =
     \<lparr>cfg_host = Some ''db1'', cfg_port = None, cfg_database = None, cfg_user = None,
      cfg_password = None, cfg_ssl = None, cfg_autoContextInjection = None,
      cfg_defaultNamespace = None\<rparr>"

definition fresh :: "bool sys" where
  "fresh = initial Map.empty False"

definition started :: "bool sys" where
  "started = snd (start sample_builtins second_loader sample_config fresh)"

text \<open>A second \<open>start\<close>, which fails, without a \<open>stop\<close> in between.\<close>

definition restarted :: "bool sys" where
  "restarted = snd (start sample_builtins no_loader sample_config started)"

definition store_params :: "string \<Rightarrow> params" where
  "store_params ns =
     [''key'' \<mapsto> JStr ''k'', ''content'' \<mapsto> JStr ''c'', ''namespace'' \<mapsto> JStr ns]"

section \<open>Facts about calls and parameters\<close>

lemma ext_call_facts:
  "ext_call c f s = (r, s') \<Longrightarrow> same_module s s' \<and> calls s' = calls s @ [(c, thrown r)]"
  by (auto simp: ext_call_def same_module_def split: prod.splits)

lemma ext_call_env: "ext_call c f s = (r, s') \<Longrightarrow> env s' = env s"
  by (auto simp: ext_call_def split: prod.splits)

lemma thrown_simps: "thrown (Inl e) = Some e" "thrown (Inr v) = None"
  by (simp_all add: thrown_def)

lemma same_module_refl: "same_module s s"
  by (simp add: same_module_def)

lemma same_module_trans: "same_module s t \<Longrightarrow> same_module t u \<Longrightarrow> same_module s u"
  by (simp add: same_module_def)

lemma readStringParam_missing:
  "missing ps k \<Longrightarrow> readStringParam ps k True True = Inl (Error (k @ '' required''))"
  by (auto simp: missing_def readStringParam_def Let_def split: option.splits json.splits)

lemma readStringParam_present:
  "\<not> missing ps k \<Longrightarrow> \<exists>v. v \<noteq> [] \<and> readStringParam ps k True True = Inr (Some v)"
  by (auto simp: missing_def readStringParam_def Let_def split: option.splits json.splits)

lemma readStringParam_cong:
  "ps1 k = ps2 k \<Longrightarrow> readStringParam ps1 k r t = readStringParam ps2 k r t"
  by (simp add: readStringParam_def)

lemma trim_samples:
  "trim ''k'' = ''k''" "trim ''c'' = ''c''" "trim ''q'' = ''q''" "trim ''  '' = []"
  "trim ''Internal'' = ''Internal''" "trim ''drop_all'' = ''drop_all''"
  "trim ''internal'' = ''internal''" "trim [CHR 0xC2, CHR 0xA0] = []"
  by code_simp+

lemma started_eq:
  "started =
     \<lparr>memoryBridge = Some sample_handle, isConnected = True, lastError = None,
      cachedStats = Some sample_stats, refreshInterval = True, env = Map.empty, world = False,
      calls = [(Import ''@novusflow/memory-bridge'', Some (Error ''Cannot find module'')),
               (Import ''../../../plugins/memory-bridge/dist/index.js'', None),
               (CreateMemoryBridge \<lparr>postgresHost = ''db1'', postgresPort = Num 5432,
                  database = ''claude_flow_msp'', userId = ''unknown''\<rparr>, None),
               (Stats, None)]\<rparr>"
  by (simp add: started_def start_def start_try_def importMemoryBridge_def importPaths_def
      import_from_def ext_call_def second_loader_def thrown_def sample_module_def
      moduleFactory_def bridgeConfig_def sample_config_def fresh_def initial_def
      sample_builtins_def orDefault_def orStr_def truthyStr_def orNum_def fetchStats_def
      sample_handle_def Let_def)

section \<open>The tools without a backend handle\<close>

text \<open>
  C2. Whatever the operation (store, search, read, delete, list, stats) and whatever the
  parameters, a tool run while no handle is held returns a result whose payload has the
  error \<open>Memory bridge not connected\<close>; it throws nothing, and the state it leaves is the
  state it found: no call left the plugin, so nothing tried to connect.
\<close>

theorem not_connected_result:
  "memoryBridge s = None \<Longrightarrow> t \<in> set createMemoryBridgeTools \<Longrightarrow>
     \<exists>payload. execute t bi ps s = (Inr (jsonResult bi payload), s) \<and>
       field payload ''error'' = Some (JStr ''Memory bridge not connected'')"
  by (auto simp: createMemoryBridgeTools_def memory_store_def memory_search_enterprise_def
      memory_read_def memory_delete_def memory_list_def memory_stats_def getMemoryBridge_def
      field_def notConnected_def)

text \<open>The list tool before any \<open>start\<close>.\<close>

theorem not_connected_result_witness:
  "memoryBridge fresh = None \<and>
   (\<exists>payload. memory_list sample_builtins Map.empty fresh =
        (Inr (jsonResult sample_builtins payload), fresh) \<and>
      field payload ''error'' = Some (JStr ''Memory bridge not connected''))"
  using not_connected_result
    [of fresh "\<lparr>name = ''memory_list'', execute = memory_list\<rparr>" sample_builtins Map.empty]
  by (simp add: fresh_def initial_def createMemoryBridgeTools_def)

section \<open>Exceptions of the backend\<close>

lemma store_throws:
  assumes "memoryBridge s = Some h"
    and "readStringParam ps ''key'' True True = Inr key"
    and "readStringParam ps ''content'' True True = Inr contentv"
    and "readStringParam ps ''namespace'' False True = Inr namespace"
    and "fst (write' h key contentv
           \<lparr>wm_namespace = namespace, wm_tags = readStringArrayParam ps ''tags''\<rparr> (world s)) = Inl e"
  shows "fst (memory_store bi ps s) =
           Inr (jsonResult bi (JObj [(''success'', JBool False), (''error'', JStr (message e))])) \<and>
         same_module s (snd (memory_store bi ps s))"
  using assms
  by (cases "write' h key contentv
      \<lparr>wm_namespace = namespace, wm_tags = readStringArrayParam ps ''tags''\<rparr> (world s)")
    (simp add: memory_store_def getMemoryBridge_def Let_def ext_call_def same_module_def thrown_def)

lemma search_throws:
  assumes "memoryBridge s = Some h"
    and "readStringParam ps ''query'' True True = Inr query"
    and "readNumberParam bi ps ''limit'' False = Inr limit"
    and "readStringParam ps ''namespace'' False True = Inr namespace"
    and "readNumberParam bi ps ''threshold'' False = Inr threshold"
    and "fst (search h query
           \<lparr>so_limit = Some (case limit of None \<Rightarrow> Num 5 | Some l \<Rightarrow> l),
            so_namespace = namespace, so_threshold = threshold,
            so_includeMetadata = Some (ps ''includeMetadata'' = Some (JBool True))\<rparr> (world s)) = Inl e"
  shows "fst (memory_search_enterprise bi ps s) =
           Inr (jsonResult bi (JObj [(''results'', JArr []), (''error'', JStr (message e))])) \<and>
         same_module s (snd (memory_search_enterprise bi ps s))"
  using assms
  by (cases "search h query
      \<lparr>so_limit = Some (case limit of None \<Rightarrow> Num 5 | Some l \<Rightarrow> l),
       so_namespace = namespace, so_threshold = threshold,
       so_includeMetadata = Some (ps ''includeMetadata'' = Some (JBool True))\<rparr> (world s)")
    (simp add: memory_search_enterprise_def getMemoryBridge_def Let_def ext_call_def same_module_def thrown_def)

lemma read_throws:
  assumes "memoryBridge s = Some h"
    and "readStringParam ps ''key'' True True = Inr key"
    and "fst (read h key (world s)) = Inl e"
  shows "fst (memory_read bi ps s) =
           Inr (jsonResult bi (JObj [(''key'', optStr key), (''found'', JBool False),
              (''error'', JStr (message e))])) \<and>
         same_module s (snd (memory_read bi ps s))"
  using assms
  by (cases "read h key (world s)")
    (simp add: memory_read_def getMemoryBridge_def Let_def ext_call_def same_module_def thrown_def)

lemma delete_throws:
  assumes "memoryBridge s = Some h"
    and "readStringParam ps ''key'' True True = Inr key"
    and "fst (delete h key (world s)) = Inl e"
  shows "fst (memory_delete bi ps s) =
           Inr (jsonResult bi (JObj [(''success'', JBool False), (''key'', optStr key),
              (''error'', JStr (message e))])) \<and>
         same_module s (snd (memory_delete bi ps s))"
  using assms
  by (cases "delete h key (world s)")
    (simp add: memory_delete_def getMemoryBridge_def Let_def ext_call_def same_module_def thrown_def)

lemma list_throws:
  assumes "memoryBridge s = Some h"
    and "readStringParam ps ''namespace'' False True = Inr namespace"
    and "readNumberParam bi ps ''limit'' False = Inr limit"
    and "readNumberParam bi ps ''offset'' False = Inr offset"
    and "fst (list h
           \<lparr>lo_namespace = namespace,
            lo_limit = Some (case limit of None \<Rightarrow> Num 100 | Some l \<Rightarrow> l),
            lo_offset = Some (case offset of None \<Rightarrow> Num 0 | Some l \<Rightarrow> l)\<rparr> (world s)) = Inl e"
  shows "fst (memory_list bi ps s) =
           Inr (jsonResult bi (JObj [(''keys'', JArr []), (''error'', JStr (message e))])) \<and>
         same_module s (snd (memory_list bi ps s))"
  using assms
  by (cases "list h
      \<lparr>lo_namespace = namespace,
       lo_limit = Some (case limit of None \<Rightarrow> Num 100 | Some l \<Rightarrow> l),
       lo_offset = Some (case offset of None \<Rightarrow> Num 0 | Some l \<Rightarrow> l)\<rparr> (world s)")
    (simp add: memory_list_def getMemoryBridge_def Let_def ext_call_def same_module_def thrown_def)

lemma stats_throws:
  assumes "memoryBridge s = Some h" and "fst (stats h (world s)) = Inl e"
  shows "fst (memory_stats bi ps s) =
           Inr (jsonResult bi (JObj [(''error'', JStr (message e))])) \<and>
         same_module s (snd (memory_stats bi ps s))"
  using assms
  by (cases "stats h (world s)")
    (simp add: memory_stats_def getMemoryBridge_def Let_def ext_call_def same_module_def thrown_def)

lemma optional_params_read:
  "\<exists>v. readStringParam ps k False t = Inr v" "\<exists>n. readNumberParam bi ps k False = Inr n"
  by (auto simp: readStringParam_def readNumberParam_def Let_def
      split: option.splits json.splits)

text \<open>
  C3. A handle is held, the parameters are such that the tool reaches its call to the
  backend, and that call throws \<open>e\<close>. Then the tool returns a result, it does not throw;
  the payload's error is the message of \<open>e\<close>, with an empty list of results for search
  (and of keys for list); and the handle, the connected flag, the last error and the
  cached stats are as before. So it is for each of the six tools, which are the tools
  registered. An optional parameter never keeps a tool from its call.
\<close>

theorem backend_exception_is_returned:
  "map execute createMemoryBridgeTools =
     [memory_store, memory_search_enterprise, memory_read, memory_delete, memory_list,
      memory_stats] \<and>
   (\<forall>key contentv namespace e.
      memoryBridge s = Some h \<and>
      readStringParam ps ''key'' True True = Inr key \<and>
      readStringParam ps ''content'' True True = Inr contentv \<and>
      readStringParam ps ''namespace'' False True = Inr namespace \<and>
      fst (write' h key contentv
        \<lparr>wm_namespace = namespace, wm_tags = readStringArrayParam ps ''tags''\<rparr> (world s)) = Inl e \<longrightarrow>
      fst (memory_store bi ps s) =
        Inr (jsonResult bi (JObj [(''success'', JBool False), (''error'', JStr (message e))])) \<and>
      same_module s (snd (memory_store bi ps s))) \<and>
   (\<forall>query limit namespace threshold e.
      memoryBridge s = Some h \<and>
      readStringParam ps ''query'' True True = Inr query \<and>
      readNumberParam bi ps ''limit'' False = Inr limit \<and>
      readStringParam ps ''namespace'' False True = Inr namespace \<and>
      readNumberParam bi ps ''threshold'' False = Inr threshold \<and>
      fst (search h query
        \<lparr>so_limit = Some (case limit of None \<Rightarrow> Num 5 | Some l \<Rightarrow> l),
         so_namespace = namespace, so_threshold = threshold,
         so_includeMetadata = Some (ps ''includeMetadata'' = Some (JBool True))\<rparr> (world s)) = Inl e \<longrightarrow>
      fst (memory_search_enterprise bi ps s) =
        Inr (jsonResult bi (JObj [(''results'', JArr []), (''error'', JStr (message e))])) \<and>
      same_module s (snd (memory_search_enterprise bi ps s))) \<and>
   (\<forall>key e.
      memoryBridge s = Some h \<and>
      readStringParam ps ''key'' True True = Inr key \<and>
      fst (read h key (world s)) = Inl e \<longrightarrow>
      fst (memory_read bi ps s) =
        Inr (jsonResult bi (JObj [(''key'', optStr key), (''found'', JBool False),
           (''error'', JStr (message e))])) \<and>
      same_module s (snd (memory_read bi ps s))) \<and>
   (\<forall>key e.
      memoryBridge s = Some h \<and>
      readStringParam ps ''key'' True True = Inr key \<and>
      fst (delete h key (world s)) = Inl e \<longrightarrow>
      fst (memory_delete bi ps s) =
        Inr (jsonResult bi (JObj [(''success'', JBool False), (''key'', optStr key),
           (''error'', JStr (message e))])) \<and>
      same_module s (snd (memory_delete bi ps s))) \<and>
   (\<forall>namespace limit offset e.
      memoryBridge s = Some h \<and>
      readStringParam ps ''namespace'' False True = Inr namespace \<and>
      readNumberParam bi ps ''limit'' False = Inr limit \<and>
      readNumberParam bi ps ''offset'' False = Inr offset \<and>
      fst (list h
        \<lparr>lo_namespace = namespace,
         lo_limit = Some (case limit of None \<Rightarrow> Num 100 | Some l \<Rightarrow> l),
         lo_offset = Some (case offset of None \<Rightarrow> Num 0 | Some l \<Rightarrow> l)\<rparr> (world s)) = Inl e \<longrightarrow>
      fst (memory_list bi ps s) =
        Inr (jsonResult bi (JObj [(''keys'', JArr []), (''error'', JStr (message e))])) \<and>
      same_module s (snd (memory_list bi ps s))) \<and>
   (\<forall>e.
      memoryBridge s = Some h \<and> fst (stats h (world s)) = Inl e \<longrightarrow>
      fst (memory_stats bi ps s) = Inr (jsonResult bi (JObj [(''error'', JStr (message e))])) \<and>
      same_module s (snd (memory_stats bi ps s))) \<and>
   (\<forall>k t. \<exists>v. readStringParam ps k False t = Inr v) \<and>
   (\<forall>k. \<exists>n. readNumberParam bi ps k False = Inr n)"
proof (intro conjI allI impI)
  show "map execute createMemoryBridgeTools =
     [memory_store, memory_search_enterprise, memory_read, memory_delete, memory_list,
      memory_stats]"
    by (simp add: createMemoryBridgeTools_def)
next
  fix key contentv namespace e
  assume "memoryBridge s = Some h \<and>
      readStringParam ps ''key'' True True = Inr key \<and>
      readStringParam ps ''content'' True True = Inr contentv \<and>
      readStringParam ps ''namespace'' False True = Inr namespace \<and>
      fst (write' h key contentv
        \<lparr>wm_namespace = namespace, wm_tags = readStringArrayParam ps ''tags''\<rparr> (world s)) = Inl e"
  then have r: "fst (memory_store bi ps s) =
        Inr (jsonResult bi (JObj [(''success'', JBool False), (''error'', JStr (message e))])) \<and>
      same_module s (snd (memory_store bi ps s))"
    using store_throws [of s h ps key contentv namespace e bi] by simp
  from r show "fst (memory_store bi ps s) =
        Inr (jsonResult bi (JObj [(''success'', JBool False), (''error'', JStr (message e))]))" ..
  from r show "same_module s (snd (memory_store bi ps s))" ..
next
  fix query limit namespace threshold e
  assume "memoryBridge s = Some h \<and>
      readStringParam ps ''query'' True True = Inr query \<and>
      readNumberParam bi ps ''limit'' False = Inr limit \<and>
      readStringParam ps ''namespace'' False True = Inr namespace \<and>
      readNumberParam bi ps ''threshold'' False = Inr threshold \<and>
      fst (search h query
        \<lparr>so_limit = Some (case limit of None \<Rightarrow> Num 5 | Some l \<Rightarrow> l),
         so_namespace = namespace, so_threshold = threshold,
         so_includeMetadata = Some (ps ''includeMetadata'' = Some (JBool True))\<rparr> (world s)) = Inl e"
  then have r: "fst (memory_search_enterprise bi ps s) =
        Inr (jsonResult bi (JObj [(''results'', JArr []), (''error'', JStr (message e))])) \<and>
      same_module s (snd (memory_search_enterprise bi ps s))"
    using search_throws [of s h ps query bi limit namespace threshold e] by simp
  from r show "fst (memory_search_enterprise bi ps s) =
        Inr (jsonResult bi (JObj [(''results'', JArr []), (''error'', JStr (message e))]))" ..
  from r show "same_module s (snd (memory_search_enterprise bi ps s))" ..
next
  fix key e
  assume "memoryBridge s = Some h \<and>
      readStringParam ps ''key'' True True = Inr key \<and>
      fst (read h key (world s)) = Inl e"
  then have r: "fst (memory_read bi ps s) =
        Inr (jsonResult bi (JObj [(''key'', optStr key), (''found'', JBool False),
           (''error'', JStr (message e))])) \<and>
      same_module s (snd (memory_read bi ps s))"
    using read_throws [of s h ps key e bi] by simp
  from r show "fst (memory_read bi ps s) =
        Inr (jsonResult bi (JObj [(''key'', optStr key), (''found'', JBool False),
           (''error'', JStr (message e))]))" ..
  from r show "same_module s (snd (memory_read bi ps s))" ..
next
  fix key e
  assume "memoryBridge s = Some h \<and>
      readStringParam ps ''key'' True True = Inr key \<and>
      fst (delete h key (world s)) = Inl e"
  then have r: "fst (memory_delete bi ps s) =
        Inr (jsonResult bi (JObj [(''success'', JBool False), (''key'', optStr key),
           (''error'', JStr (message e))])) \<and>
      same_module s (snd (memory_delete bi ps s))"
    using delete_throws [of s h ps key e bi] by simp
  from r show "fst (memory_delete bi ps s) =
        Inr (jsonResult bi (JObj [(''success'', JBool False), (''key'', optStr key),
           (''error'', JStr (message e))]))" ..
  from r show "same_module s (snd (memory_delete bi ps s))" ..
next
  fix namespace limit offset e
  assume "memoryBridge s = Some h \<and>
      readStringParam ps ''namespace'' False True = Inr namespace \<and>
      readNumberParam bi ps ''limit'' False = Inr limit \<and>
      readNumberParam bi ps ''offset'' False = Inr offset \<and>
      fst (list h
        \<lparr>lo_namespace = namespace,
         lo_limit = Some (case limit of None \<Rightarrow> Num 100 | Some l \<Rightarrow> l),
         lo_offset = Some (case offset of None \<Rightarrow> Num 0 | Some l \<Rightarrow> l)\<rparr> (world s)) = Inl e"
  then have r: "fst (memory_list bi ps s) =
        Inr (jsonResult bi (JObj [(''keys'', JArr []), (''error'', JStr (message e))])) \<and>
      same_module s (snd (memory_list bi ps s))"
    using list_throws [of s h ps namespace bi limit offset e] by simp
  from r show "fst (memory_list bi ps s) =
        Inr (jsonResult bi (JObj [(''keys'', JArr []), (''error'', JStr (message e))]))" ..
  from r show "same_module s (snd (memory_list bi ps s))" ..
next
  fix e
  assume "memoryBridge s = Some h \<and> fst (stats h (world s)) = Inl e"
  then have r: "fst (memory_stats bi ps s) =
        Inr (jsonResult bi (JObj [(''error'', JStr (message e))])) \<and>
      same_module s (snd (memory_stats bi ps s))"
    using stats_throws [of s h e bi ps] by simp
  from r show "fst (memory_stats bi ps s) =
        Inr (jsonResult bi (JObj [(''error'', JStr (message e))]))" ..
  from r show "same_module s (snd (memory_stats bi ps s))" ..
next
  fix k t
  show "\<exists>v. readStringParam ps k False t = Inr v"
    by (rule optional_params_read)
next
  fix k
  show "\<exists>n. readNumberParam bi ps k False = Inr n"
    by (rule optional_params_read)
qed

text \<open>Started as in the scenario of the specification; then the backend times out.\<close>

theorem backend_exception_is_returned_witness:
  "fst (memory_store sample_builtins (store_params ''internal'') (started\<lparr>world := True\<rparr>)) =
     Inr (jsonResult sample_builtins
       (JObj [(''success'', JBool False), (''error'', JStr ''timeout'')])) \<and>
   fst (memory_search_enterprise sample_builtins [''query'' \<mapsto> JStr ''q'']
       (started\<lparr>world := True\<rparr>)) =
     Inr (jsonResult sample_builtins (JObj [(''results'', JArr []), (''error'', JStr ''timeout'')])) \<and>
   fst (memory_read sample_builtins [''key'' \<mapsto> JStr ''k''] (started\<lparr>world := True\<rparr>)) =
     Inr (jsonResult sample_builtins
       (JObj [(''key'', JStr ''k''), (''found'', JBool False), (''error'', JStr ''timeout'')])) \<and>
   fst (memory_delete sample_builtins [''key'' \<mapsto> JStr ''k''] (started\<lparr>world := True\<rparr>)) =
     Inr (jsonResult sample_builtins
       (JObj [(''success'', JBool False), (''key'', JStr ''k''), (''error'', JStr ''timeout'')])) \<and>
   fst (memory_list sample_builtins Map.empty (started\<lparr>world := True\<rparr>)) =
     Inr (jsonResult sample_builtins (JObj [(''keys'', JArr []), (''error'', JStr ''timeout'')])) \<and>
   fst (memory_stats sample_builtins Map.empty (started\<lparr>world := True\<rparr>)) =
     Inr (jsonResult sample_builtins (JObj [(''error'', JStr ''timeout'')])) \<and>
   getMemoryBridgeStatus (snd (memory_search_enterprise sample_builtins [''query'' \<mapsto> JStr ''q'']
       (started\<lparr>world := True\<rparr>))) =
     \<lparr>connected = True, st_stats = Some sample_stats, st_error = None\<rparr>"
proof -
  let ?s = "started\<lparr>world := True\<rparr>"
  let ?st = "store_params ''internal''"
  let ?q = "[''query'' \<mapsto> JStr ''q'']"
  let ?k = "[''key'' \<mapsto> JStr ''k'']"
  let ?none = "Map.empty :: params"
  have held: "memoryBridge ?s = Some sample_handle" and down: "world ?s = True"
    by (simp_all add: started_eq)
  have st: "readStringParam ?st ''key'' True True = Inr (Some ''k'')"
    "readStringParam ?st ''content'' True True = Inr (Some ''c'')"
    "readStringParam ?st ''namespace'' False True = Inr (Some ''internal'')"
    by (simp_all add: store_params_def readStringParam_def trim_samples)
  have q: "readStringParam ?q ''query'' True True = Inr (Some ''q'')"
    "readNumberParam sample_builtins ?q ''limit'' False = Inr None"
    "readStringParam ?q ''namespace'' False True = Inr None"
    "readNumberParam sample_builtins ?q ''threshold'' False = Inr None"
    by (simp_all add: readStringParam_def readNumberParam_def trim_samples)
  have k: "readStringParam ?k ''key'' True True = Inr (Some ''k'')"
    by (simp add: readStringParam_def trim_samples)
  have l: "readStringParam ?none ''namespace'' False True = Inr None"
    "readNumberParam sample_builtins ?none ''limit'' False = Inr None"
    "readNumberParam sample_builtins ?none ''offset'' False = Inr None"
    by (simp_all add: readStringParam_def readNumberParam_def)
  have timeout:
    "\<And>key contentv m. fst (write' sample_handle key contentv m (world ?s)) = Inl (Error ''timeout'')"
    "\<And>query opts. fst (search sample_handle query opts (world ?s)) = Inl (Error ''timeout'')"
    "\<And>key. fst (read sample_handle key (world ?s)) = Inl (Error ''timeout'')"
    "\<And>key. fst (delete sample_handle key (world ?s)) = Inl (Error ''timeout'')"
    "\<And>opts. fst (list sample_handle opts (world ?s)) = Inl (Error ''timeout'')"
    "fst (stats sample_handle (world ?s)) = Inl (Error ''timeout'')"
    by (simp_all add: down sample_handle_def)
  note store = backend_exception_is_returned [where s = ?s and h = sample_handle and ps = ?st
      and bi = sample_builtins,
      THEN conjunct2, THEN conjunct1, rule_format,
      of "Some ''k''" "Some ''c''" "Some ''internal''" "Error ''timeout''"]
  note search = backend_exception_is_returned [where s = ?s and h = sample_handle and ps = ?q
      and bi = sample_builtins,
      THEN conjunct2, THEN conjunct2, THEN conjunct1, rule_format,
      of "Some ''q''" None None None "Error ''timeout''"]
  note rd = backend_exception_is_returned [where s = ?s and h = sample_handle and ps = ?k
      and bi = sample_builtins,
      THEN conjunct2, THEN conjunct2, THEN conjunct2, THEN conjunct1, rule_format,
      of "Some ''k''" "Error ''timeout''"]
  note del = backend_exception_is_returned [where s = ?s and h = sample_handle and ps = ?k
      and bi = sample_builtins,
      THEN conjunct2, THEN conjunct2, THEN conjunct2, THEN conjunct2, THEN conjunct1,
      rule_format, of "Some ''k''" "Error ''timeout''"]
  note lst = backend_exception_is_returned [where s = ?s and h = sample_handle and ps = ?none
      and bi = sample_builtins,
      THEN conjunct2, THEN conjunct2, THEN conjunct2, THEN conjunct2, THEN conjunct2,
      THEN conjunct1, rule_format, of None None None "Error ''timeout''"]
  note sts = backend_exception_is_returned [where s = ?s and h = sample_handle and ps = ?none
      and bi = sample_builtins,
      THEN conjunct2, THEN conjunct2, THEN conjunct2, THEN conjunct2, THEN conjunct2,
      THEN conjunct2, THEN conjunct1, rule_format, of "Error ''timeout''"]
  from store held st timeout(1)
  have a: "fst (memory_store sample_builtins ?st ?s) =
      Inr (jsonResult sample_builtins
        (JObj [(''success'', JBool False), (''error'', JStr ''timeout'')]))"
    by simp
  from search held q timeout(2)
  have b: "fst (memory_search_enterprise sample_builtins ?q ?s) =
      Inr (jsonResult sample_builtins (JObj [(''results'', JArr []), (''error'', JStr ''timeout'')]))"
    and b': "same_module ?s (snd (memory_search_enterprise sample_builtins ?q ?s))"
    by simp_all
  from rd held k timeout(3)
  have c: "fst (memory_read sample_builtins ?k ?s) =
      Inr (jsonResult sample_builtins
        (JObj [(''key'', JStr ''k''), (''found'', JBool False), (''error'', JStr ''timeout'')]))"
    by (simp add: optStr_def)
  from del held k timeout(4)
  have d: "fst (memory_delete sample_builtins ?k ?s) =
      Inr (jsonResult sample_builtins
        (JObj [(''success'', JBool False), (''key'', JStr ''k''), (''error'', JStr ''timeout'')]))"
    by (simp add: optStr_def)
  from lst held l timeout(5)
  have e: "fst (memory_list sample_builtins ?none ?s) =
      Inr (jsonResult sample_builtins (JObj [(''keys'', JArr []), (''error'', JStr ''timeout'')]))"
    by simp
  from sts held timeout(6)
  have f: "fst (memory_stats sample_builtins ?none ?s) =
      Inr (jsonResult sample_builtins (JObj [(''error'', JStr ''timeout'')]))"
    by simp
  from b' have g: "getMemoryBridgeStatus (snd (memory_search_enterprise sample_builtins ?q ?s)) =
      \<lparr>connected = True, st_stats = Some sample_stats, st_error = None\<rparr>"
    by (simp add: same_module_def getMemoryBridgeStatus_def started_eq)
  from a b c d e f g show ?thesis by simp
qed

section \<open>Required parameters\<close>

text \<open>
  C4 as the code has it. While a handle is held, a tool whose required parameter (\<open>key\<close>
  or \<open>content\<close> for store, \<open>query\<close> for search, \<open>key\<close> for read and delete) is
  missing, not a string, or empty once trimmed makes no call to the backend and leaves the
  state alone; the rejection is the exception \<open>Error "<parameter> required"\<close> thrown out
  of \<open>execute\<close>, not a result.
\<close>

theorem missing_required_param_is_thrown:
  "memoryBridge s \<noteq> None \<Longrightarrow>
   (missing ps ''key'' \<longrightarrow>
      memory_store bi ps s = (Inl (Error ''key required''), s) \<and>
      memory_read bi ps s = (Inl (Error ''key required''), s) \<and>
      memory_delete bi ps s = (Inl (Error ''key required''), s)) \<and>
   (\<not> missing ps ''key'' \<and> missing ps ''content'' \<longrightarrow>
      memory_store bi ps s = (Inl (Error ''content required''), s)) \<and>
   (missing ps ''query'' \<longrightarrow>
      memory_search_enterprise bi ps s = (Inl (Error ''query required''), s))"
  using readStringParam_present [of ps "''key''"]
  by (auto simp: memory_store_def memory_read_def memory_delete_def memory_search_enterprise_def
      getMemoryBridge_def readStringParam_missing)

theorem missing_required_param_is_thrown_witness:
  "memory_store sample_builtins [''key'' \<mapsto> JStr [CHR 0xC2, CHR 0xA0]] started =
     (Inl (Error ''key required''), started) \<and>
   memory_read sample_builtins [''key'' \<mapsto> JStr [CHR 0xC2, CHR 0xA0]] started =
     (Inl (Error ''key required''), started) \<and>
   memory_delete sample_builtins [''key'' \<mapsto> JStr [CHR 0xC2, CHR 0xA0]] started =
     (Inl (Error ''key required''), started) \<and>
   memory_search_enterprise sample_builtins [''key'' \<mapsto> JStr [CHR 0xC2, CHR 0xA0]] started =
     (Inl (Error ''query required''), started) \<and>
   memory_store sample_builtins [''key'' \<mapsto> JStr ''k'', ''content'' \<mapsto> JStr ''  ''] started =
     (Inl (Error ''content required''), started)"
proof -
  have held: "memoryBridge started \<noteq> None"
    by (simp add: started_eq)
  from missing_required_param_is_thrown
    [OF held, of "[''key'' \<mapsto> JStr [CHR 0xC2, CHR 0xA0]]" sample_builtins]
  have a: "memory_store sample_builtins [''key'' \<mapsto> JStr [CHR 0xC2, CHR 0xA0]] started =
       (Inl (Error ''key required''), started) \<and>
     memory_read sample_builtins [''key'' \<mapsto> JStr [CHR 0xC2, CHR 0xA0]] started =
       (Inl (Error ''key required''), started) \<and>
     memory_delete sample_builtins [''key'' \<mapsto> JStr [CHR 0xC2, CHR 0xA0]] started =
       (Inl (Error ''key required''), started) \<and>
     memory_search_enterprise sample_builtins [''key'' \<mapsto> JStr [CHR 0xC2, CHR 0xA0]] started =
       (Inl (Error ''query required''), started)"
    by (simp add: missing_def trim_samples)
  from missing_required_param_is_thrown
    [OF held, of "[''key'' \<mapsto> JStr ''k'', ''content'' \<mapsto> JStr ''  '']" sample_builtins]
  have b: "memory_store sample_builtins [''key'' \<mapsto> JStr ''k'', ''content'' \<mapsto> JStr ''  ''] started =
       (Inl (Error ''content required''), started)"
    by (simp add: missing_def trim_samples)
  from a b show ?thesis by simp
qed

text \<open>
  C4 as stated fails: with a handle held and no \<open>key\<close>, the store tool throws instead of
  returning a failure result.
\<close>

theorem missing_key_counterexample:
  "memoryBridge started \<noteq> None \<and>
   fst (memory_store sample_builtins [''content'' \<mapsto> JStr ''c''] started) = Inl (Error ''key required'')"
  by (simp add: started_eq memory_store_def getMemoryBridge_def readStringParam_def)

section \<open>Stopping\<close>

text \<open>
  C7. \<open>stop\<close> never throws, whatever the state and whether the backend's
  \<open>disconnect\<close> returns or throws; afterwards the handle, the connected flag, the cached
  stats and the last error are cleared. A second \<open>stop\<close> changes nothing more, and a
  \<open>stop\<close> before any \<open>start\<close> leaves the initial state.
\<close>

theorem stop_total_idempotent:
  "fst (stop s) = Inr () \<and>
   memoryBridge (snd (stop s)) = None \<and>
   \<not> isConnected (snd (stop s)) \<and>
   cachedStats (snd (stop s)) = None \<and>
   lastError (snd (stop s)) = None \<and>
   getMemoryBridgeStatus (snd (stop s)) = \<lparr>connected = False, st_stats = None, st_error = None\<rparr> \<and>
   stop (snd (stop s)) = (Inr (), snd (stop s)) \<and>
   stop (initial e w) = (Inr (), initial e w)"
  by (auto simp: stop_def Let_def ext_call_def initial_def getMemoryBridgeStatus_def
      split: option.splits prod.splits sum.splits)

section \<open>The refresh timer\<close>

text \<open>
  C8. A tick whose \<open>stats()\<close> call throws leaves the cached stats, the connected flag, the
  last error and the handle as they were. The cached stats change only in a tick whose
  \<open>stats()\<close> call returns, and then they are the returned value, whole. No tick changes
  the handle, the connected flag or the last error.
\<close>

theorem refresh_failure_keeps_snapshot:
  "(\<forall>h e. memoryBridge s = Some h \<and> isConnected s \<and> fst (stats h (world s)) = Inl e \<longrightarrow>
      same_module s (refreshTick s) \<and> calls (refreshTick s) = calls s @ [(Stats, Some e)]) \<and>
   (\<forall>h st. memoryBridge s = Some h \<and> isConnected s \<and> fst (stats h (world s)) = Inr st \<longrightarrow>
      cachedStats (refreshTick s) = Some st) \<and>
   (cachedStats (refreshTick s) \<noteq> cachedStats s \<longrightarrow>
      (\<exists>h st. memoryBridge s = Some h \<and> isConnected s \<and> fst (stats h (world s)) = Inr st \<and>
         cachedStats (refreshTick s) = Some st)) \<and>
   memoryBridge (refreshTick s) = memoryBridge s \<and>
   isConnected (refreshTick s) = isConnected s \<and>
   lastError (refreshTick s) = lastError s"
  by (auto simp: refreshTick_def fetchStats_def ext_call_def same_module_def thrown_def
      split: option.splits prod.splits sum.splits)

theorem refresh_failure_keeps_snapshot_witness:
  "cachedStats (refreshTick (started\<lparr>world := True\<rparr>)) = Some sample_stats \<and>
   isConnected (refreshTick (started\<lparr>world := True\<rparr>)) \<and>
   lastError (refreshTick (started\<lparr>world := True\<rparr>)) = None \<and>
   memoryBridge (refreshTick (started\<lparr>world := True\<rparr>)) = Some sample_handle \<and>
   calls (refreshTick (started\<lparr>world := True\<rparr>)) =
     calls started @ [(Stats, Some (Error ''timeout''))] \<and>
   cachedStats (refreshTick (started\<lparr>cachedStats := None\<rparr>)) = Some sample_stats"
proof -
  let ?s = "started\<lparr>world := True\<rparr>"
  have fails: "memoryBridge ?s = Some sample_handle \<and> isConnected ?s \<and>
      fst (stats sample_handle (world ?s)) = Inl (Error ''timeout'')"
    by (simp add: started_eq sample_handle_def)
  let ?t = "started\<lparr>cachedStats := None\<rparr>"
  have succeeds: "memoryBridge ?t = Some sample_handle \<and> isConnected ?t \<and>
      fst (stats sample_handle (world ?t)) = Inr sample_stats"
    by (simp add: started_eq sample_handle_def)
  from refresh_failure_keeps_snapshot [of ?s] fails
  have "same_module ?s (refreshTick ?s) \<and>
      calls (refreshTick ?s) = calls ?s @ [(Stats, Some (Error ''timeout''))]"
    by blast
  moreover from refresh_failure_keeps_snapshot [of ?t] succeeds
  have "cachedStats (refreshTick ?t) = Some sample_stats"
    by blast
  ultimately show ?thesis
    by (simp add: same_module_def started_eq)
qed

section \<open>The namespace of read and delete\<close>

text \<open>
  C10. Two parameter sets that differ at most in \<open>namespace\<close> give the same result and
  the same state, for \<open>memory_read\<close> and for \<open>memory_delete\<close>; with a handle held and
  a valid key, the one call made is \<open>read(key)\<close>, or \<open>delete(key)\<close>: the key alone.
\<close>

theorem namespace_not_forwarded:
  "(\<forall>k. k \<noteq> ''namespace'' \<longrightarrow> ps1 k = ps2 k) \<Longrightarrow>
     memory_read bi ps1 s = memory_read bi ps2 s \<and>
     memory_delete bi ps1 s = memory_delete bi ps2 s \<and>
     (\<forall>h key. memoryBridge s = Some h \<and> readStringParam ps1 ''key'' True True = Inr key \<longrightarrow>
        calls (snd (memory_read bi ps1 s)) =
          calls s @ [(Read key, thrown (fst (read h key (world s))))] \<and>
        calls (snd (memory_delete bi ps1 s)) =
          calls s @ [(Delete key, thrown (fst (delete h key (world s))))])"
proof (intro conjI allI impI)
  assume eq: "\<forall>k. k \<noteq> ''namespace'' \<longrightarrow> ps1 k = ps2 k"
  from eq [rule_format, of "''key''"] have "ps1 ''key'' = ps2 ''key''"
    by simp
  then have key: "readStringParam ps1 ''key'' True True = readStringParam ps2 ''key'' True True"
    by (rule readStringParam_cong)
  show "memory_read bi ps1 s = memory_read bi ps2 s"
    unfolding memory_read_def key ..
  show "memory_delete bi ps1 s = memory_delete bi ps2 s"
    unfolding memory_delete_def key ..
next
  fix h key
  assume "memoryBridge s = Some h \<and> readStringParam ps1 ''key'' True True = Inr key"
  then show "calls (snd (memory_read bi ps1 s)) =
          calls s @ [(Read key, thrown (fst (read h key (world s))))]"
    by (auto simp: memory_read_def getMemoryBridge_def ext_call_def
        split: prod.splits sum.splits option.splits)
next
  fix h key
  assume "memoryBridge s = Some h \<and> readStringParam ps1 ''key'' True True = Inr key"
  then show "calls (snd (memory_delete bi ps1 s)) =
          calls s @ [(Delete key, thrown (fst (delete h key (world s))))]"
    by (auto simp: memory_delete_def getMemoryBridge_def ext_call_def
        split: prod.splits sum.splits option.splits)
qed

theorem namespace_not_forwarded_witness:
  "memory_read sample_builtins [''key'' \<mapsto> JStr ''k'', ''namespace'' \<mapsto> JStr ''internal''] started =
   memory_read sample_builtins [''key'' \<mapsto> JStr ''k'', ''namespace'' \<mapsto> JStr ''drop_all''] started \<and>
   memory_delete sample_builtins [''key'' \<mapsto> JStr ''k'', ''namespace'' \<mapsto> JStr ''internal''] started =
   memory_delete sample_builtins [''key'' \<mapsto> JStr ''k'', ''namespace'' \<mapsto> JStr ''drop_all''] started \<and>
   calls (snd (memory_read sample_builtins
      [''key'' \<mapsto> JStr ''k'', ''namespace'' \<mapsto> JStr ''internal''] started)) =
     calls started @ [(Read (Some ''k''), None)] \<and>
   calls (snd (memory_delete sample_builtins
      [''key'' \<mapsto> JStr ''k'', ''namespace'' \<mapsto> JStr ''internal''] started)) =
     calls started @ [(Delete (Some ''k''), None)]"
proof -
  let ?p1 = "[''key'' \<mapsto> JStr ''k'', ''namespace'' \<mapsto> JStr ''internal'']"
  let ?p2 = "[''key'' \<mapsto> JStr ''k'', ''namespace'' \<mapsto> JStr ''drop_all'']"
  have differ: "\<forall>k. k \<noteq> ''namespace'' \<longrightarrow> ?p1 k = ?p2 k"
    by simp
  have held: "memoryBridge started = Some sample_handle"
    by (simp add: started_eq)
  have key: "readStringParam ?p1 ''key'' True True = Inr (Some ''k'')"
    by (simp add: readStringParam_def trim_samples)
  have w: "world started = False"
    by (simp add: started_eq)
  from namespace_not_forwarded [of ?p1 ?p2 sample_builtins started, OF differ]
  have a: "memory_read sample_builtins ?p1 started = memory_read sample_builtins ?p2 started"
    and b: "memory_delete sample_builtins ?p1 started = memory_delete sample_builtins ?p2 started"
    and c: "\<And>h key. memoryBridge started = Some h \<and> readStringParam ?p1 ''key'' True True = Inr key \<Longrightarrow>
        calls (snd (memory_read sample_builtins ?p1 started)) =
          calls started @ [(Read key, thrown (fst (read h key (world started))))] \<and>
        calls (snd (memory_delete sample_builtins ?p1 started)) =
          calls started @ [(Delete key, thrown (fst (delete h key (world started))))]"
    by blast+
  from c [of sample_handle "Some ''k''"] held key
  have "calls (snd (memory_read sample_builtins ?p1 started)) =
          calls started @ [(Read (Some ''k''), thrown (fst (read sample_handle (Some ''k'') (world started))))] \<and>
        calls (snd (memory_delete sample_builtins ?p1 started)) =
          calls started @ [(Delete (Some ''k''), thrown (fst (delete sample_handle (Some ''k'') (world started))))]"
    by simp
  then have "calls (snd (memory_read sample_builtins ?p1 started)) =
          calls started @ [(Read (Some ''k''), None)] \<and>
        calls (snd (memory_delete sample_builtins ?p1 started)) =
          calls started @ [(Delete (Some ''k''), None)]"
    by (simp add: w sample_handle_def thrown_def)
  with a b show ?thesis by simp
qed

section \<open>Resolving the backend\<close>

lemma import_from_eq:
  "import_from ld path s = (ld path, s\<lparr>calls := calls s @ [(Import path, thrown (ld path))]\<rparr>)"
  by (simp add: import_from_def ext_call_def)

lemma importLoop_unusable:
  "\<forall>p\<in>set broken. unusable ld p \<Longrightarrow>
     importLoop ld (broken @ rest) s =
       importLoop ld rest (s\<lparr>calls := calls s @ import_events ld broken\<rparr>)"
proof (induction broken arbitrary: s)
  case Nil
  then show ?case by (simp add: import_events_def)
next
  case (Cons p broken)
  then have p: "unusable ld p" and rest: "\<forall>p\<in>set broken. unusable ld p"
    by simp_all
  from p show ?case
    by (auto simp: unusable_def import_from_eq import_events_def Cons.IH [OF rest]
        split: sum.splits option.splits)
qed

lemma importLoop_usable:
  "ld good = Inr m \<Longrightarrow> createMemoryBridge m = Some f \<Longrightarrow>
     importLoop ld (good # later) s =
       (Some (moduleFactory f), s\<lparr>calls := calls s @ import_events ld [good]\<rparr>)"
  by (simp add: import_from_eq import_events_def)

lemma importLoop_first_usable:
  assumes "\<forall>p\<in>set broken. unusable ld p" "ld good = Inr m" "createMemoryBridge m = Some f"
  shows "importLoop ld (broken @ good # later) s =
           (Some (moduleFactory f), s\<lparr>calls := calls s @ import_events ld (broken @ [good])\<rparr>)"
proof -
  have "importLoop ld (broken @ good # later) s =
          importLoop ld (good # later) (s\<lparr>calls := calls s @ import_events ld broken\<rparr>)"
    using assms(1) by (rule importLoop_unusable)
  also have "\<dots> = (Some (moduleFactory f),
      s\<lparr>calls := calls s @ import_events ld broken @ import_events ld [good]\<rparr>)"
    using assms(2,3) by (simp add: import_from_eq import_events_def)
  finally show ?thesis
    by (simp add: import_events_def)
qed

lemma importLoop_all_unusable:
  assumes "\<forall>p\<in>set paths. unusable ld p"
  shows "importLoop ld paths s = (None, s\<lparr>calls := calls s @ import_events ld paths\<rparr>)"
  using importLoop_unusable [OF assms, of "[]" s] by simp

text \<open>
  C6. When the first candidates of a list are unusable (they fail to load or lack
  \<open>createMemoryBridge\<close>) and the next one exports the factory, the loop returns that
  factory, and the imports attempted are those candidates and no other: no later
  candidate, no direct construction. So it is for the list the method uses. When every
  listed candidate is unusable, the one further import is that of the direct
  construction, after all of them; if it fails to load the method returns \<open>null\<close>.
  The method never throws.
\<close>

theorem first_usable_candidate_wins:
  "((\<forall>p\<in>set broken. unusable ld p) \<and> ld good = Inr m \<and> createMemoryBridge m = Some f \<longrightarrow>
      importLoop ld (broken @ good # later) s =
        (Some (moduleFactory f), s\<lparr>calls := calls s @ import_events ld (broken @ [good])\<rparr>)) \<and>
   (importPaths = broken @ good # later \<and>
    (\<forall>p\<in>set broken. unusable ld p) \<and> ld good = Inr m \<and> createMemoryBridge m = Some f \<longrightarrow>
      importMemoryBridge ld s =
        (Inr (Some (moduleFactory f)), s\<lparr>calls := calls s @ import_events ld (broken @ [good])\<rparr>)) \<and>
   ((\<forall>p\<in>set importPaths. unusable ld p) \<longrightarrow>
      importMemoryBridge ld s =
        (case ld directPath of
           Inr d \<Rightarrow> Inr (Some (directFactory (PostgresMemoryPlugin d)))
         | Inl _ \<Rightarrow> Inr None,
         s\<lparr>calls := calls s @ import_events ld (importPaths @ [directPath])\<rparr>)) \<and>
   (\<exists>r. fst (importMemoryBridge ld s) = Inr r)"
proof (intro conjI impI)
  assume "(\<forall>p\<in>set broken. unusable ld p) \<and> ld good = Inr m \<and> createMemoryBridge m = Some f"
  then show "importLoop ld (broken @ good # later) s =
        (Some (moduleFactory f), s\<lparr>calls := calls s @ import_events ld (broken @ [good])\<rparr>)"
    by (simp add: importLoop_first_usable)
next
  assume a: "importPaths = broken @ good # later \<and>
    (\<forall>p\<in>set broken. unusable ld p) \<and> ld good = Inr m \<and> createMemoryBridge m = Some f"
  then have "importLoop ld importPaths s =
      (Some (moduleFactory f), s\<lparr>calls := calls s @ import_events ld (broken @ [good])\<rparr>)"
    using importLoop_first_usable [of broken ld good m f later s] by simp
  then show "importMemoryBridge ld s =
        (Inr (Some (moduleFactory f)), s\<lparr>calls := calls s @ import_events ld (broken @ [good])\<rparr>)"
    by (simp add: importMemoryBridge_def)
next
  assume "\<forall>p\<in>set importPaths. unusable ld p"
  then show "importMemoryBridge ld s =
        (case ld directPath of
           Inr d \<Rightarrow> Inr (Some (directFactory (PostgresMemoryPlugin d)))
         | Inl _ \<Rightarrow> Inr None,
         s\<lparr>calls := calls s @ import_events ld (importPaths @ [directPath])\<rparr>)"
    by (simp add: importMemoryBridge_def importLoop_all_unusable import_from_eq import_events_def
        split: sum.splits)
next
  show "\<exists>r. fst (importMemoryBridge ld s) = Inr r"
    by (auto simp: importMemoryBridge_def split: prod.splits option.splits sum.splits)
qed

text \<open>One loader resolves on its second path, another resolves nothing.\<close>

theorem first_usable_candidate_wins_witness:
  "importMemoryBridge second_loader fresh =
     (Inr (Some (moduleFactory (\<lambda>config w. (Inr sample_handle, w)))),
      fresh\<lparr>calls := [(Import ''@novusflow/memory-bridge'', Some (Error ''Cannot find module'')),
                        (Import ''../../../plugins/memory-bridge/dist/index.js'', None)]\<rparr>) \<and>
   importMemoryBridge no_loader fresh =
     (Inr None,
      fresh\<lparr>calls := [(Import ''@novusflow/memory-bridge'', Some (Error ''Cannot find module'')),
                        (Import ''../../../plugins/memory-bridge/dist/index.js'', Some (Error ''Cannot find module'')),
                        (Import ''../../../../plugins/memory-bridge/dist/index.js'', Some (Error ''Cannot find module'')),
                        (Import ''../../../plugins/memory-bridge/dist/index.js'', Some (Error ''Cannot find module''))]\<rparr>)"
proof -
  let ?f = "\<lambda>(config :: BridgeConfig) (w :: bool). (Inr sample_handle :: exn + bool MemoryPlugin, w)"
  have split: "importPaths = [''@novusflow/memory-bridge'']
      @ ''../../../plugins/memory-bridge/dist/index.js''
      # [''../../../../plugins/memory-bridge/dist/index.js'']"
    by (simp add: importPaths_def)
  have broken: "\<forall>p\<in>set [''@novusflow/memory-bridge'']. unusable second_loader p"
    by (simp add: unusable_def second_loader_def)
  have good: "second_loader ''../../../plugins/memory-bridge/dist/index.js'' = Inr sample_module"
    by (simp add: second_loader_def)
  have factory: "createMemoryBridge sample_module = Some ?f"
    by (simp add: sample_module_def)
  have none: "\<forall>p\<in>set importPaths. unusable no_loader p"
    by (simp add: unusable_def no_loader_def)
  have empty: "calls fresh = []"
    by (simp add: fresh_def initial_def)
  from first_usable_candidate_wins
    [of "[''@novusflow/memory-bridge'']" second_loader
      "''../../../plugins/memory-bridge/dist/index.js''" sample_module ?f
      "[''../../../../plugins/memory-bridge/dist/index.js'']" fresh]
    split broken good factory
  have a: "importMemoryBridge second_loader fresh =
      (Inr (Some (moduleFactory ?f)),
       fresh\<lparr>calls := calls fresh @ import_events second_loader
          ([''@novusflow/memory-bridge''] @ [''../../../plugins/memory-bridge/dist/index.js''])\<rparr>)"
    by blast
  from first_usable_candidate_wins [of "[]" no_loader _ _ _ _ fresh] none
  have b: "importMemoryBridge no_loader fresh =
      (case no_loader directPath of
         Inr d \<Rightarrow> Inr (Some (directFactory (PostgresMemoryPlugin d)))
       | Inl _ \<Rightarrow> Inr None,
       fresh\<lparr>calls := calls fresh @ import_events no_loader (importPaths @ [directPath])\<rparr>)"
    by blast
  from a b show ?thesis
    by (simp add: empty import_events_def second_loader_def no_loader_def thrown_def
        importPaths_def directPath_def)
qed

section \<open>Starting\<close>

lemma importLoop_same_module:
  "importLoop ld paths s = (r, s') \<Longrightarrow> same_module s s' \<and> env s' = env s"
proof (induction paths arbitrary: s)
  case Nil
  then show ?case by (simp add: same_module_def)
next
  case (Cons p paths)
  let ?s = "s\<lparr>calls := calls s @ [(Import p, thrown (ld p))]\<rparr>"
  have step: "same_module s ?s \<and> env ?s = env s"
    by (simp add: same_module_def)
  show ?case
  proof (cases "importLoop ld (p # paths) s = importLoop ld paths ?s")
    case True
    with Cons.prems Cons.IH [of ?s] step show ?thesis
      by (auto simp: same_module_def)
  next
    case False
    then have "importLoop ld (p # paths) s = (r, ?s)"
      using Cons.prems
      by (auto simp: import_from_eq split: sum.splits option.splits)
    with Cons.prems step show ?thesis by simp
  qed
qed

lemma importLoop_factory:
  "importLoop ld paths s = (Some f, s') \<Longrightarrow> \<exists>g. f = moduleFactory g"
proof (induction paths arbitrary: s)
  case Nil
  then show ?case by simp
next
  case (Cons p paths)
  then show ?case
    by (auto simp: import_from_eq split: sum.splits option.splits)
qed

lemma importMemoryBridge_same_module:
  "importMemoryBridge ld s = (r, s1) \<Longrightarrow> same_module s s1 \<and> env s1 = env s"
  by (auto simp: importMemoryBridge_def import_from_eq same_module_def
      dest!: importLoop_same_module split: prod.splits option.splits sum.splits)

lemma importMemoryBridge_factory:
  "importMemoryBridge ld s = (Inr (Some f), s1) \<Longrightarrow>
     (\<exists>g. f = moduleFactory g) \<or> (\<exists>c. f = directFactory c)"
  by (auto simp: importMemoryBridge_def import_from_eq dest: importLoop_factory
      split: prod.splits option.splits sum.splits)

lemma importMemoryBridge_returns:
  "importMemoryBridge ld s = (r, s1) \<Longrightarrow> \<exists>v. r = Inr v"
  by (auto simp: importMemoryBridge_def split: prod.splits option.splits sum.splits)

lemma moduleFactory_same_module: "moduleFactory g c t = (r, t') \<Longrightarrow> same_module t t'"
  by (auto simp: moduleFactory_def dest: ext_call_facts)

lemma directFactory_same_module: "directFactory ctor c t = (r, t') \<Longrightarrow> same_module t t'"
  by (auto simp: directFactory_def Let_def ext_call_def same_module_def
      split: option.splits prod.splits sum.splits if_splits)

lemma factory_same_module:
  "importMemoryBridge ld s = (Inr (Some f), s1) \<Longrightarrow> f c t = (r, t') \<Longrightarrow> same_module t t'"
  using importMemoryBridge_factory moduleFactory_same_module directFactory_same_module
  by blast

lemma fetchStats_keeps:
  "memoryBridge (fetchStats h s) = memoryBridge s \<and> isConnected (fetchStats h s) = isConnected s \<and>
   lastError (fetchStats h s) = lastError s \<and> refreshInterval (fetchStats h s) = refreshInterval s"
  by (auto simp: fetchStats_def ext_call_def split: prod.splits sum.splits)

lemma start_try_fails:
  assumes "start_try bi ld config s = (Inl err, s')"
  shows "same_module s s'"
proof -
  obtain r s1 where imp: "importMemoryBridge ld s = (r, s1)"
    by (cases "importMemoryBridge ld s")
  from importMemoryBridge_returns [OF imp] obtain v where r: "r = Inr v" ..
  from importMemoryBridge_same_module [OF imp] have m1: "same_module s s1" ..
  show ?thesis
  proof (cases v)
    case None
    with assms imp r m1 show ?thesis
      by (simp add: start_try_def)
  next
    case (Some f)
    obtain q s2 where call: "f (bridgeConfig bi config (env s1)) s1 = (q, s2)"
      by (cases "f (bridgeConfig bi config (env s1)) s1")
    from imp r Some have "importMemoryBridge ld s = (Inr (Some f), s1)" by simp
    from factory_same_module [OF this call] have m2: "same_module s1 s2" .
    from assms imp r Some call have "q = Inl err \<and> s' = s2"
      by (cases q) (simp_all add: start_try_def Let_def)
    with m1 m2 show ?thesis
      by (auto intro: same_module_trans)
  qed
qed

lemma start_try_succeeds:
  assumes "start_try bi ld config s = (Inr u, s')"
  shows "isConnected s' \<and> memoryBridge s' \<noteq> None \<and> lastError s' = None \<and> refreshInterval s'"
  using assms
  by (auto simp: start_try_def Let_def fetchStats_keeps
      split: prod.splits sum.splits option.splits)

lemma start_returns: "fst (start bi ld config s) = Inr ()"
  by (auto simp: start_def split: prod.splits sum.splits)

lemma start_failed:
  assumes "fst (start_try bi ld config s) = Inl err"
  shows "lastError (snd (start bi ld config s)) = Some (message err) \<and>
         \<not> isConnected (snd (start bi ld config s)) \<and>
         memoryBridge (snd (start bi ld config s)) = memoryBridge s \<and>
         cachedStats (snd (start bi ld config s)) = cachedStats s"
proof -
  obtain s' where t: "start_try bi ld config s = (Inl err, s')"
    using assms by (cases "start_try bi ld config s") simp
  from start_try_fails [OF t] have "same_module s s'" .
  with t show ?thesis
    by (simp add: start_def same_module_def)
qed

lemma start_succeeded:
  assumes "fst (start_try bi ld config s) = Inr u"
  shows "isConnected (snd (start bi ld config s)) \<and>
         memoryBridge (snd (start bi ld config s)) \<noteq> None \<and>
         lastError (snd (start bi ld config s)) = None"
proof -
  obtain s' where t: "start_try bi ld config s = (Inr u, s')"
    using assms by (cases "start_try bi ld config s") simp
  from start_try_succeeds [OF t] t show ?thesis
    by (simp add: start_def)
qed

text \<open>
  C1. \<open>start\<close> returns and never throws, for every configuration, loader and state.
  When its \<^verbatim>\<open>try\<close> block fails with \<open>err\<close>, the last error is the message of
  \<open>err\<close>, the connected flag is false and the handle is the one held before, so unset
  where none was held. The block fails with \<open>Failed to load @novusflow/memory-bridge module\<close>
  when no candidate is usable and the direct import fails too, and with the factory's
  own exception when the factory's connect throws.
\<close>

theorem start_never_raises:
  "fst (start bi ld config s) = Inr () \<and>
   (\<forall>err. fst (start_try bi ld config s) = Inl err \<longrightarrow>
      lastError (snd (start bi ld config s)) = Some (message err) \<and>
      \<not> isConnected (snd (start bi ld config s)) \<and>
      memoryBridge (snd (start bi ld config s)) = memoryBridge s \<and>
      (memoryBridge s = None \<longrightarrow> memoryBridge (snd (start bi ld config s)) = None)) \<and>
   ((\<forall>p\<in>set importPaths. unusable ld p) \<and> (\<exists>e. ld directPath = Inl e) \<longrightarrow>
      fst (start_try bi ld config s) = Inl (Error ''Failed to load @novusflow/memory-bridge module'')) \<and>
   (\<forall>factory s1 e. importMemoryBridge ld s = (Inr (Some factory), s1) \<and>
      fst (factory (bridgeConfig bi config (env s1)) s1) = Inl e \<longrightarrow>
      fst (start_try bi ld config s) = Inl e)"
proof (intro conjI allI impI)
  show "fst (start bi ld config s) = Inr ()"
    by (rule start_returns)
next
  fix err
  assume f: "fst (start_try bi ld config s) = Inl err"
  from start_failed [OF f]
  show "lastError (snd (start bi ld config s)) = Some (message err)"
    and "\<not> isConnected (snd (start bi ld config s))"
    and "memoryBridge (snd (start bi ld config s)) = memoryBridge s"
    by simp_all
  assume "memoryBridge s = None"
  with start_failed [OF f] show "memoryBridge (snd (start bi ld config s)) = None"
    by simp
next
  assume a: "(\<forall>p\<in>set importPaths. unusable ld p) \<and> (\<exists>e. ld directPath = Inl e)"
  then obtain e where e: "ld directPath = Inl e" by blast
  from a have "\<forall>p\<in>set importPaths. unusable ld p" ..
  then have "importMemoryBridge ld s =
      (Inr None, s\<lparr>calls := calls s @ import_events ld (importPaths @ [directPath])\<rparr>)"
    by (simp add: importMemoryBridge_def importLoop_all_unusable import_from_eq
        import_events_def e)
  then show "fst (start_try bi ld config s) =
      Inl (Error ''Failed to load @novusflow/memory-bridge module'')"
    by (simp add: start_try_def)
next
  fix factory s1 e
  assume "importMemoryBridge ld s = (Inr (Some factory), s1) \<and>
      fst (factory (bridgeConfig bi config (env s1)) s1) = Inl e"
  then show "fst (start_try bi ld config s) = Inl e"
    by (cases "factory (bridgeConfig bi config (env s1)) s1") (simp add: start_try_def)
qed

text \<open>A start that resolves nothing, and one whose factory is refused by the database.\<close>

lemma no_loader_fails:
  "fst (start_try sample_builtins no_loader sample_config fresh) =
     Inl (Error ''Failed to load @novusflow/memory-bridge module'')"
  by (simp add: start_try_def importMemoryBridge_def importPaths_def import_from_eq
      no_loader_def)

lemma refusing_loader_import:
  "importMemoryBridge refusing_loader fresh =
     (Inr (Some (moduleFactory (\<lambda>config w. (Inl (Error ''ECONNREFUSED''), w)))),
      fresh\<lparr>calls := [(Import ''@novusflow/memory-bridge'', None)]\<rparr>)"
  by (simp add: importMemoryBridge_def importPaths_def import_from_eq refusing_loader_def
      thrown_def fresh_def initial_def)

theorem start_never_raises_witness:
  "fst (start sample_builtins no_loader sample_config fresh) = Inr () \<and>
   lastError (snd (start sample_builtins no_loader sample_config fresh)) =
     Some ''Failed to load @novusflow/memory-bridge module'' \<and>
   \<not> isConnected (snd (start sample_builtins no_loader sample_config fresh)) \<and>
   memoryBridge (snd (start sample_builtins no_loader sample_config fresh)) = None \<and>
   fst (start sample_builtins refusing_loader sample_config fresh) = Inr () \<and>
   lastError (snd (start sample_builtins refusing_loader sample_config fresh)) =
     Some ''ECONNREFUSED'' \<and>
   \<not> isConnected (snd (start sample_builtins refusing_loader sample_config fresh)) \<and>
   memoryBridge (snd (start sample_builtins refusing_loader sample_config fresh)) = None"
proof -
  have unset: "memoryBridge fresh = None"
    by (simp add: fresh_def initial_def)
  have none: "(\<forall>p\<in>set importPaths. unusable no_loader p) \<and> (\<exists>e. no_loader directPath = Inl e)"
    by (simp add: unusable_def no_loader_def)
  note a = start_never_raises [of sample_builtins no_loader sample_config fresh]
  from a none have fa: "fst (start_try sample_builtins no_loader sample_config fresh) =
      Inl (Error ''Failed to load @novusflow/memory-bridge module'')"
    by blast
  from a fa unset have ra:
    "fst (start sample_builtins no_loader sample_config fresh) = Inr () \<and>
     lastError (snd (start sample_builtins no_loader sample_config fresh)) =
       Some (message (Error ''Failed to load @novusflow/memory-bridge module'')) \<and>
     \<not> isConnected (snd (start sample_builtins no_loader sample_config fresh)) \<and>
     memoryBridge (snd (start sample_builtins no_loader sample_config fresh)) = None"
    by blast
  let ?s1 = "fresh\<lparr>calls := [(Import ''@novusflow/memory-bridge'', None)]\<rparr>"
  let ?f = "moduleFactory (\<lambda>(config :: BridgeConfig) (w :: bool).
      (Inl (Error ''ECONNREFUSED'') :: exn + bool MemoryPlugin, w))"
  have throws: "fst (?f (bridgeConfig sample_builtins sample_config (env ?s1)) ?s1) =
      Inl (Error ''ECONNREFUSED'')"
    by (simp add: moduleFactory_def ext_call_def)
  note b = start_never_raises [of sample_builtins refusing_loader sample_config fresh]
  from b refusing_loader_import throws
  have fb: "fst (start_try sample_builtins refusing_loader sample_config fresh) =
      Inl (Error ''ECONNREFUSED'')"
    by blast
  from b fb unset have rb:
    "fst (start sample_builtins refusing_loader sample_config fresh) = Inr () \<and>
     lastError (snd (start sample_builtins refusing_loader sample_config fresh)) =
       Some (message (Error ''ECONNREFUSED'')) \<and>
     \<not> isConnected (snd (start sample_builtins refusing_loader sample_config fresh)) \<and>
     memoryBridge (snd (start sample_builtins refusing_loader sample_config fresh)) = None"
    by blast
  from ra rb show ?thesis by simp
qed

section \<open>The connected flag and the handle\<close>

lemma refreshTick_keeps:
  "memoryBridge (refreshTick s) = memoryBridge s \<and> isConnected (refreshTick s) = isConnected s"
  by (simp add: refreshTick_def fetchStats_keeps split: option.splits)

lemma stop_clears: "memoryBridge (snd (stop s)) = None \<and> \<not> isConnected (snd (stop s))"
  by (simp add: stop_def Let_def)

lemma start_cases:
  obtains (failed) err where "fst (start_try bi ld config s) = Inl err"
  | (succeeded) "fst (start_try bi ld config s) = Inr ()"
  by (cases "fst (start_try bi ld config s)") auto

lemma reachable_connected:
  "reachable bi s \<Longrightarrow> isConnected s \<Longrightarrow> memoryBridge s \<noteq> None"
proof (induction rule: reachable.induct)
  case (r_initial e w)
  then show ?case by (simp add: initial_def)
next
  case (r_start s ld config)
  show ?case
  proof (cases rule: start_cases [of bi ld config s])
    case (failed err)
    from start_failed [OF failed] r_start.prems show ?thesis by simp
  next
    case succeeded
    from start_succeeded [OF succeeded] show ?thesis by simp
  qed
next
  case (r_stop s)
  then show ?case by (simp add: stop_clears)
next
  case (r_tick s)
  then show ?case by (simp add: refreshTick_keeps)
qed

lemma lifecycle_connected:
  "lifecycle bi s \<Longrightarrow> isConnected s \<longleftrightarrow> memoryBridge s \<noteq> None"
proof (induction rule: lifecycle.induct)
  case (l_initial e w)
  then show ?case by (simp add: initial_def)
next
  case (l_start s ld config)
  show ?case
  proof (cases rule: start_cases [of bi ld config s])
    case (failed err)
    from start_failed [OF failed] l_start.hyps show ?thesis by simp
  next
    case succeeded
    from start_succeeded [OF succeeded] show ?thesis by simp
  qed
next
  case (l_stop s)
  then show ?case by (simp add: stop_clears)
next
  case (l_tick s)
  then show ?case by (simp add: refreshTick_keeps)
qed

text \<open>
  C9 as the code has it. In every state reached by \<open>start\<close>, \<open>stop\<close> and ticks, a true
  connected flag means that a handle is held. Where \<open>start\<close> is only called while no
  handle is held, the flag is true exactly when a handle is held. \<open>status().connected\<close>
  is the flag. The flag is false and the handle absent in the initial state, after any
  \<open>stop\<close>, and after a \<open>start\<close> that failed and found no handle.
\<close>

theorem connected_iff_handle_in_lifecycle:
  "(reachable bi s \<longrightarrow> isConnected s \<longrightarrow> memoryBridge s \<noteq> None) \<and>
   (lifecycle bi s \<longrightarrow> (isConnected s \<longleftrightarrow> memoryBridge s \<noteq> None)) \<and>
   connected (getMemoryBridgeStatus s) = isConnected s \<and>
   \<not> isConnected (initial e w) \<and> memoryBridge (initial e w) = None \<and>
   \<not> isConnected (snd (stop s)) \<and> memoryBridge (snd (stop s)) = None \<and>
   (\<forall>err. memoryBridge s = None \<and> fst (start_try bi ld config s) = Inl err \<longrightarrow>
      \<not> isConnected (snd (start bi ld config s)) \<and>
      memoryBridge (snd (start bi ld config s)) = None)"
  using reachable_connected [of bi s] lifecycle_connected [of bi s] stop_clears [of s]
    start_failed [of bi ld config s]
  by (auto simp: getMemoryBridgeStatus_def initial_def)

theorem connected_iff_handle_in_lifecycle_witness:
  "lifecycle sample_builtins started \<and> reachable sample_builtins started \<and>
   isConnected started \<and> memoryBridge started \<noteq> None \<and>
   \<not> isConnected (snd (start sample_builtins no_loader sample_config fresh)) \<and>
   memoryBridge (snd (start sample_builtins no_loader sample_config fresh)) = None"
proof -
  have unset: "memoryBridge fresh = None"
    by (simp add: fresh_def initial_def)
  have l0: "lifecycle sample_builtins fresh"
    unfolding fresh_def by (rule lifecycle.l_initial)
  have l: "lifecycle sample_builtins started"
    unfolding started_def using l0 unset by (rule lifecycle.l_start)
  have r: "reachable sample_builtins started"
    unfolding started_def fresh_def by (intro reachable.intros)
  have c: "isConnected started"
    by (simp add: started_eq)
  from connected_iff_handle_in_lifecycle
    [of sample_builtins started Map.empty False no_loader sample_config] l r c
  have h: "memoryBridge started \<noteq> None"
    by blast
  from connected_iff_handle_in_lifecycle
    [of sample_builtins fresh Map.empty False no_loader sample_config]
    unset no_loader_fails
  have "\<not> isConnected (snd (start sample_builtins no_loader sample_config fresh)) \<and>
      memoryBridge (snd (start sample_builtins no_loader sample_config fresh)) = None"
    by blast
  with l r c h show ?thesis by simp
qed

lemma restarted_eq:
  "restarted = started\<lparr>lastError := Some ''Failed to load @novusflow/memory-bridge module'',
     isConnected := False,
     calls := calls started @
       [(Import ''@novusflow/memory-bridge'', Some (Error ''Cannot find module'')),
        (Import ''../../../plugins/memory-bridge/dist/index.js'', Some (Error ''Cannot find module'')),
        (Import ''../../../../plugins/memory-bridge/dist/index.js'', Some (Error ''Cannot find module'')),
        (Import ''../../../plugins/memory-bridge/dist/index.js'', Some (Error ''Cannot find module''))]\<rparr>"
  by (simp add: restarted_def start_def start_try_def importMemoryBridge_def importPaths_def
      directPath_def import_from_eq no_loader_def thrown_def)

text \<open>
  C9 as stated fails: a \<open>start\<close> that succeeds followed by one that fails, with no
  \<open>stop\<close> between them, leaves the first handle held and the connected flag false.
\<close>

theorem restart_counterexample:
  "reachable sample_builtins restarted \<and>
   \<not> connected (getMemoryBridgeStatus restarted) \<and>
   memoryBridge restarted = Some sample_handle"
proof -
  have "reachable sample_builtins restarted"
    unfolding restarted_def started_def fresh_def
    by (intro reachable.intros)
  then show ?thesis
    by (simp add: restarted_eq getMemoryBridgeStatus_def started_eq)
qed

section \<open>Namespaces and the allow-list\<close>

lemma validate_Internal: "validateSchema ''Internal'' = Inr ''internal''"
  by code_simp

lemma validate_drop_all: "validateSchema ''drop_all'' = Inl (Error ''Invalid schema: drop_all'')"
  by code_simp

lemma nbsp_normalized:
  "trim (toLowerCase (''internal'' @ [CHR 0xC2, CHR 0xA0])) = ''internal''"
  "''internal'' \<in> set ALLOWED_SCHEMAS"
  by code_simp+

lemma validateSchema_eq:
  "validateSchema x =
     (if trim (toLowerCase x) \<in> set ALLOWED_SCHEMAS then Inr (trim (toLowerCase x))
      else Inl (Error (''Invalid schema: '' @ x)))"
  by (simp add: validateSchema_def Let_def)

lemma store_forwards_namespace:
  assumes "memoryBridge s = Some h"
    and "readStringParam ps ''key'' True True = Inr k"
    and "readStringParam ps ''content'' True True = Inr c"
    and "ps ''namespace'' = Some (JStr ns)" and "trim ns \<noteq> []"
  shows "calls (snd (memory_store bi ps s)) =
           calls s @ [(Write k c \<lparr>wm_namespace = Some (trim ns),
                                  wm_tags = readStringArrayParam ps ''tags''\<rparr>,
                       thrown (fst (write' h k c \<lparr>wm_namespace = Some (trim ns),
                                  wm_tags = readStringArrayParam ps ''tags''\<rparr> (world s))))]"
proof -
  from assms(4,5) have "readStringParam ps ''namespace'' False True = Inr (Some (trim ns))"
    by (simp add: readStringParam_def)
  with assms(1-3) show ?thesis
    by (auto simp: memory_store_def getMemoryBridge_def Let_def ext_call_def
        split: prod.splits sum.splits)
qed

lemma search_forwards_namespace:
  assumes "memoryBridge s = Some h"
    and "readStringParam ps ''query'' True True = Inr q"
    and "ps ''namespace'' = Some (JStr ns)" and "trim ns \<noteq> []"
  shows "\<exists>opts r. so_namespace opts = Some (trim ns) \<and>
           calls (snd (memory_search_enterprise bi ps s)) = calls s @ [(Search q opts, r)]"
proof -
  from assms(3,4) have ns: "readStringParam ps ''namespace'' False True = Inr (Some (trim ns))"
    by (simp add: readStringParam_def)
  obtain limit where l: "readNumberParam bi ps ''limit'' False = Inr limit"
    by (cases "readNumberParam bi ps ''limit'' False") (auto simp: readNumberParam_def Let_def)
  obtain threshold where t: "readNumberParam bi ps ''threshold'' False = Inr threshold"
    by (cases "readNumberParam bi ps ''threshold'' False") (auto simp: readNumberParam_def Let_def)
  let ?opts = "\<lparr>so_limit = Some (case limit of None \<Rightarrow> Num 5 | Some l \<Rightarrow> l),
                 so_namespace = Some (trim ns), so_threshold = threshold,
                 so_includeMetadata = Some (ps ''includeMetadata'' = Some (JBool True))\<rparr>"
  have "calls (snd (memory_search_enterprise bi ps s)) =
      calls s @ [(Search q ?opts, thrown (fst (search h q ?opts (world s))))]"
    using assms(1,2) ns l t
    by (auto simp: memory_search_enterprise_def getMemoryBridge_def Let_def ext_call_def
        split: prod.splits sum.splits)
  moreover have "so_namespace ?opts = Some (trim ns)" by simp
  ultimately show ?thesis by blast
qed

text \<open>
  C5 as the code has it. \<open>validateSchema\<close> lower-cases and trims its argument and accepts
  it exactly when the outcome is in the allow-list: \<open>Internal\<close> gives \<open>internal\<close>,
  \<open>drop_all\<close> is refused with \<open>Invalid schema: drop_all\<close>. The store and read tools of
  the plugin definition apply it to the namespace they are given, whatever the connection,
  and return the refusal as an error result. The tools that call the backend do not apply
  it: \<open>memory_store\<close> and \<open>memory_search_enterprise\<close> pass the trimmed namespace on
  as it was written.
\<close>

theorem validateSchema_allow_list:
  "validateSchema ''Internal'' = Inr ''internal'' \<and>
   validateSchema ''drop_all'' = Inl (Error ''Invalid schema: drop_all'') \<and>
   validateSchema x =
     (if trim (toLowerCase x) \<in> set ALLOWED_SCHEMAS then Inr (trim (toLowerCase x))
      else Inl (Error (''Invalid schema: '' @ x))) \<and>
   (ps_namespace sp = Some x \<and> trim (toLowerCase x) \<notin> set ALLOWED_SCHEMAS \<longrightarrow>
      plugin_memory_store e sp =
        \<lparr>pr_content = [\<lparr>item_type = ''text'', item_text = ''Error: Invalid schema: '' @ x\<rparr>],
         isError = True\<rparr>) \<and>
   (ps_namespace sp = Some x \<and> trim (toLowerCase x) \<in> set ALLOWED_SCHEMAS \<longrightarrow>
      plugin_memory_store e sp =
        \<lparr>pr_content = [\<lparr>item_type = ''text'',
            item_text = ''Stored '' @ quote (ps_key sp) @ '' in '' @ trim (toLowerCase x)\<rparr>],
         isError = False\<rparr>) \<and>
   (pr_namespace rp = Some x \<and> trim (toLowerCase x) \<notin> set ALLOWED_SCHEMAS \<longrightarrow>
      plugin_memory_read e rp =
        \<lparr>pr_content = [\<lparr>item_type = ''text'', item_text = ''Error: Invalid schema: '' @ x\<rparr>],
         isError = True\<rparr>) \<and>
   (\<forall>h k c ns. memoryBridge s = Some h \<and> readStringParam ps ''key'' True True = Inr k \<and>
      readStringParam ps ''content'' True True = Inr c \<and>
      ps ''namespace'' = Some (JStr ns) \<and> trim ns \<noteq> [] \<longrightarrow>
      calls (snd (memory_store bi ps s)) =
        calls s @ [(Write k c \<lparr>wm_namespace = Some (trim ns),
                               wm_tags = readStringArrayParam ps ''tags''\<rparr>,
                    thrown (fst (write' h k c \<lparr>wm_namespace = Some (trim ns),
                               wm_tags = readStringArrayParam ps ''tags''\<rparr> (world s))))]) \<and>
   (\<forall>h q ns. memoryBridge s = Some h \<and> readStringParam ps ''query'' True True = Inr q \<and>
      ps ''namespace'' = Some (JStr ns) \<and> trim ns \<noteq> [] \<longrightarrow>
      (\<exists>opts r. so_namespace opts = Some (trim ns) \<and>
         calls (snd (memory_search_enterprise bi ps s)) = calls s @ [(Search q opts, r)]))"
proof (intro conjI allI impI)
  show "validateSchema ''Internal'' = Inr ''internal''"
    by (rule validate_Internal)
  show "validateSchema ''drop_all'' = Inl (Error ''Invalid schema: drop_all'')"
    by (rule validate_drop_all)
  show "validateSchema x =
     (if trim (toLowerCase x) \<in> set ALLOWED_SCHEMAS then Inr (trim (toLowerCase x))
      else Inl (Error (''Invalid schema: '' @ x)))"
    by (rule validateSchema_eq)
next
  assume "ps_namespace sp = Some x \<and> trim (toLowerCase x) \<notin> set ALLOWED_SCHEMAS"
  then show "plugin_memory_store e sp =
        \<lparr>pr_content = [\<lparr>item_type = ''text'', item_text = ''Error: Invalid schema: '' @ x\<rparr>],
         isError = True\<rparr>"
    by (simp add: plugin_memory_store_def validateSchema_eq)
next
  assume "ps_namespace sp = Some x \<and> trim (toLowerCase x) \<in> set ALLOWED_SCHEMAS"
  then show "plugin_memory_store e sp =
        \<lparr>pr_content = [\<lparr>item_type = ''text'',
            item_text = ''Stored '' @ quote (ps_key sp) @ '' in '' @ trim (toLowerCase x)\<rparr>],
         isError = False\<rparr>"
    by (simp add: plugin_memory_store_def validateSchema_eq)
next
  assume "pr_namespace rp = Some x \<and> trim (toLowerCase x) \<notin> set ALLOWED_SCHEMAS"
  then show "plugin_memory_read e rp =
        \<lparr>pr_content = [\<lparr>item_type = ''text'', item_text = ''Error: Invalid schema: '' @ x\<rparr>],
         isError = True\<rparr>"
    by (simp add: plugin_memory_read_def validateSchema_eq)
next
  fix h k c ns
  assume "memoryBridge s = Some h \<and> readStringParam ps ''key'' True True = Inr k \<and>
      readStringParam ps ''content'' True True = Inr c \<and>
      ps ''namespace'' = Some (JStr ns) \<and> trim ns \<noteq> []"
  then show "calls (snd (memory_store bi ps s)) =
        calls s @ [(Write k c \<lparr>wm_namespace = Some (trim ns),
                               wm_tags = readStringArrayParam ps ''tags''\<rparr>,
                    thrown (fst (write' h k c \<lparr>wm_namespace = Some (trim ns),
                               wm_tags = readStringArrayParam ps ''tags''\<rparr> (world s))))]"
    by (simp add: store_forwards_namespace)
next
  fix h q ns
  assume "memoryBridge s = Some h \<and> readStringParam ps ''query'' True True = Inr q \<and>
      ps ''namespace'' = Some (JStr ns) \<and> trim ns \<noteq> []"
  then show "\<exists>opts r. so_namespace opts = Some (trim ns) \<and>
         calls (snd (memory_search_enterprise bi ps s)) = calls s @ [(Search q opts, r)]"
    using search_forwards_namespace [of s h ps q ns bi] by simp
qed

lemma drop_all_refused: "trim (toLowerCase ''drop_all'') \<notin> set ALLOWED_SCHEMAS"
  by code_simp

lemma Internal_accepted:
  "trim (toLowerCase ''Internal'') = ''internal''" "''internal'' \<in> set ALLOWED_SCHEMAS"
  by code_simp+

theorem validateSchema_allow_list_witness:
  "plugin_memory_store Map.empty
     \<lparr>ps_key = ''k'', ps_value = ''v'', ps_namespace = Some ''drop_all'', ps_metadata = None\<rparr> =
     \<lparr>pr_content = [\<lparr>item_type = ''text'', item_text = ''Error: Invalid schema: drop_all''\<rparr>],
      isError = True\<rparr> \<and>
   plugin_memory_read Map.empty \<lparr>pr_key = ''k'', pr_namespace = Some ''drop_all''\<rparr> =
     \<lparr>pr_content = [\<lparr>item_type = ''text'', item_text = ''Error: Invalid schema: drop_all''\<rparr>],
      isError = True\<rparr> \<and>
   plugin_memory_store Map.empty
     \<lparr>ps_key = ''k'', ps_value = ''v'', ps_namespace = Some ''Internal'', ps_metadata = None\<rparr> =
     \<lparr>pr_content = [\<lparr>item_type = ''text'',
         item_text = ''Stored '' @ quote ''k'' @ '' in internal''\<rparr>],
      isError = False\<rparr> \<and>
   calls (snd (memory_store sample_builtins (store_params ''Internal'') started)) =
     calls started @
       [(Write (Some ''k'') (Some ''c'') \<lparr>wm_namespace = Some ''Internal'', wm_tags = None\<rparr>, None)] \<and>
   (\<exists>opts r. so_namespace opts = Some ''Internal'' \<and>
      calls (snd (memory_search_enterprise sample_builtins
          [''query'' \<mapsto> JStr ''q'', ''namespace'' \<mapsto> JStr ''Internal''] started)) =
        calls started @ [(Search (Some ''q'') opts, r)]) \<and>
   validateSchema (''internal'' @ [CHR 0xC2, CHR 0xA0]) = Inr ''internal''"
proof -
  let ?bad = "\<lparr>ps_key = ''k'', ps_value = ''v'', ps_namespace = Some ''drop_all'', ps_metadata = None\<rparr>"
  let ?good = "\<lparr>ps_key = ''k'', ps_value = ''v'', ps_namespace = Some ''Internal'', ps_metadata = None\<rparr>"
  let ?rd = "\<lparr>pr_key = ''k'', pr_namespace = Some ''drop_all''\<rparr>"
  let ?q = "[''query'' \<mapsto> JStr ''q'', ''namespace'' \<mapsto> JStr ''Internal'']"
  have held: "memoryBridge started = Some sample_handle" and w: "world started = False"
    by (simp_all add: started_eq)
  have tr: "trim ''Internal'' = ''Internal''"
    by (simp add: trim_samples)
  have key: "readStringParam (store_params ''Internal'') ''key'' True True = Inr (Some ''k'')"
    and con: "readStringParam (store_params ''Internal'') ''content'' True True = Inr (Some ''c'')"
    and ns: "store_params ''Internal'' ''namespace'' = Some (JStr ''Internal'')"
    and tags: "readStringArrayParam (store_params ''Internal'') ''tags'' = None"
    and qry: "readStringParam ?q ''query'' True True = Inr (Some ''q'')"
    and qns: "?q ''namespace'' = Some (JStr ''Internal'')"
    by (simp_all add: store_params_def readStringParam_def readStringArrayParam_def
        trim_samples)
  note bad = validateSchema_allow_list
    [of "''drop_all''" ?bad Map.empty ?rd started "store_params ''Internal''" sample_builtins]
  from bad drop_all_refused
  have a: "plugin_memory_store Map.empty ?bad =
      \<lparr>pr_content = [\<lparr>item_type = ''text'', item_text = ''Error: Invalid schema: '' @ ''drop_all''\<rparr>],
       isError = True\<rparr>"
    and b: "plugin_memory_read Map.empty ?rd =
      \<lparr>pr_content = [\<lparr>item_type = ''text'', item_text = ''Error: Invalid schema: '' @ ''drop_all''\<rparr>],
       isError = True\<rparr>"
    by simp_all
  from bad held key con ns tr
  have c: "calls (snd (memory_store sample_builtins (store_params ''Internal'') started)) =
      calls started @
        [(Write (Some ''k'') (Some ''c'')
            \<lparr>wm_namespace = Some ''Internal'',
             wm_tags = readStringArrayParam (store_params ''Internal'') ''tags''\<rparr>,
          thrown (fst (write' sample_handle (Some ''k'') (Some ''c'')
            \<lparr>wm_namespace = Some ''Internal'',
             wm_tags = readStringArrayParam (store_params ''Internal'') ''tags''\<rparr>
            (world started))))]"
    by simp
  note good = validateSchema_allow_list
    [of "''Internal''" ?good Map.empty ?rd started ?q sample_builtins]
  from good Internal_accepted
  have d: "plugin_memory_store Map.empty ?good =
      \<lparr>pr_content = [\<lparr>item_type = ''text'',
          item_text = ''Stored '' @ quote ''k'' @ '' in '' @ ''internal''\<rparr>],
       isError = False\<rparr>"
    by simp
  from good held qry qns tr
  have e: "\<exists>opts r. so_namespace opts = Some ''Internal'' \<and>
      calls (snd (memory_search_enterprise sample_builtins ?q started)) =
        calls started @ [(Search (Some ''q'') opts, r)]"
    by simp
  note spaced = validateSchema_allow_list
    [of "''internal'' @ [CHR 0xC2, CHR 0xA0]" ?good Map.empty ?rd started ?q sample_builtins]
  from spaced nbsp_normalized
  have f: "validateSchema (''internal'' @ [CHR 0xC2, CHR 0xA0]) = Inr ''internal''"
    by simp
  from a b c d e f show ?thesis
    by (simp add: tags w sample_handle_def thrown_def)
qed

text \<open>
  C5 as stated fails: with a handle held, the store tool writes to the namespace
  \<open>drop_all\<close> and reports success.
\<close>

theorem namespace_forwarded_counterexample:
  "memory_store sample_builtins (store_params ''drop_all'') started =
     (Inr (jsonResult sample_builtins
        (JObj [(''success'', JBool True), (''key'', JStr ''k''), (''namespace'', JStr ''drop_all'')])),
      started\<lparr>calls := calls started @
        [(Write (Some ''k'') (Some ''c'') \<lparr>wm_namespace = Some ''drop_all'', wm_tags = None\<rparr>,
          None)]\<rparr>)"
  by (simp add: started_eq store_params_def memory_store_def getMemoryBridge_def
      readStringParam_def readStringArrayParam_def trim_samples ext_call_def
      sample_handle_def thrown_def optStr_def Let_def)

end
